theory Spec2Isabelle
  imports Complex_Main "HOL-Library.Multiset"
begin

section \<open>Strings as the chat component uses them\<close>

text \<open>
  A JavaScript string is modelled as a list of code units below 256. The character
  classes are those the regular expressions of \<open>handleSubmit\<close> use: \<open>\s\<close> (which
  \<open>String.prototype.trim\<close> strips as well), \<open>[A-Za-z]\<close> under the \<open>i\<close> flag, \<open>\d\<close> and
  \<open>\w\<close> (for \<open>\b\<close>).
\<close>

definition isSpace :: "char \<Rightarrow> bool" where
  "isSpace c = ((of_char c :: nat) \<in> {9, 10, 11, 12, 13, 32, 160})"

definition isUpperCh :: "char \<Rightarrow> bool" where
  "isUpperCh c = (65 \<le> (of_char c :: nat) \<and> (of_char c :: nat) \<le> 90)"

definition isLowerCh :: "char \<Rightarrow> bool" where
  "isLowerCh c = (97 \<le> (of_char c :: nat) \<and> (of_char c :: nat) \<le> 122)"

definition isAlpha :: "char \<Rightarrow> bool" where
  "isAlpha c = (isUpperCh c \<or> isLowerCh c)"

definition isDigit :: "char \<Rightarrow> bool" where
  "isDigit c = (48 \<le> (of_char c :: nat) \<and> (of_char c :: nat) \<le> 57)"

definition isWord :: "char \<Rightarrow> bool" where
  "isWord c = (isAlpha c \<or> isDigit c \<or> c = CHR ''_'')"

text \<open>
  \<open>String.prototype.toLowerCase\<close> and \<open>toUpperCase\<close> on the code units below 256. Beside
  the ASCII letters these are the letters of Latin-1: the capitals 0xC0 to 0xDE (without
  the sign 0xD7) and the small letters 0xE0 to 0xFE (without the sign 0xF7), 0x20 apart.
  Lower case stays below 256. The upper case of three small letters does not have one code
  unit below 256: of 0xDF (sharp s) it is \<open>SS\<close>, of 0xB5 (micro sign) it is U+039C, of
  0xFF (y with diaeresis) it is U+0178. So \<open>toUpperCase\<close> gives the code units of its
  result as numbers; \<open>codeUnits\<close> are those of a string as it is, and \<open>fromCodeUnits\<close>
  reads code units below 256 back as a string.
\<close>

definition isLatinUpper :: "char \<Rightarrow> bool" where
  "isLatinUpper c = (192 \<le> (of_char c :: nat) \<and> (of_char c :: nat) \<le> 222
                      \<and> (of_char c :: nat) \<noteq> 215)"

definition isLatinLower :: "char \<Rightarrow> bool" where
  "isLatinLower c = (224 \<le> (of_char c :: nat) \<and> (of_char c :: nat) \<le> 254
                      \<and> (of_char c :: nat) \<noteq> 247)"

definition lowerCh :: "char \<Rightarrow> char" where
  "lowerCh c = (if isUpperCh c \<or> isLatinUpper c then char_of ((of_char c :: nat) + 32) else c)"

definition upperCh :: "char \<Rightarrow> nat list" where
  "upperCh c =
     (if isLowerCh c \<or> isLatinLower c then [(of_char c :: nat) - 32]
      else if (of_char c :: nat) = 223 then [83, 83]
      else if (of_char c :: nat) = 181 then [924]
      else if (of_char c :: nat) = 255 then [376]
      else [of_char c])"

definition toLowerCase :: "string \<Rightarrow> string" where
  "toLowerCase s = map lowerCh s"

definition toUpperCase :: "string \<Rightarrow> nat list" where
  "toUpperCase s = concat (map upperCh s)"

definition codeUnits :: "string \<Rightarrow> nat list" where
  "codeUnits s = map of_char s"

definition fromCodeUnits :: "nat list \<Rightarrow> string" where
  "fromCodeUnits ns = map char_of ns"

definition trim :: "string \<Rightarrow> string" where
  "trim s = rev (dropWhile isSpace (rev (dropWhile isSpace s)))"

text \<open>
  \<open>s\<close> begins with the word \<open>w\<close> of small ASCII letters, compared as the flag \<open>i\<close>
  compares: a letter of the pattern matches its two ASCII forms and nothing else, and only
  these two have it as their lower case.
\<close>

definition startsWithCI :: "string \<Rightarrow> string \<Rightarrow> bool" where
  "startsWithCI w s = (length w \<le> length s \<and> toLowerCase (take (length w) s) = w)"

text \<open>Three letters at the head of \<open>s\<close>: the capture group \<open>([A-Za-z]{3})\<close>.\<close>

definition letters3 :: "string \<Rightarrow> string option" where
  "letters3 s = (if 3 \<le> length s \<and> list_all isAlpha (take 3 s) then Some (take 3 s) else None)"

section \<open>The intent extractor (\<open>handleSubmit\<close>, lines 110 to 112 and 123)\<close>

text \<open>
  Each regular expression is a match anchored at one position, tried at every position
  from the left (\<open>String.prototype.match\<close> without the \<open>g\<close> flag returns the leftmost
  match). In \<open>kw\s+([A-Za-z]{3})\<close> the greedy \<open>\s+\<close> takes the whole run of white space:
  giving a white-space character back leaves it in front of the letters, where it does not
  match.
\<close>

definition kwAt :: "string \<Rightarrow> string \<Rightarrow> string option" where
  "kwAt kw s =
     (if startsWithCI kw s then
        (case drop (length kw) s of
           [] \<Rightarrow> None
         | c # r \<Rightarrow> if isSpace c then letters3 (dropWhile isSpace r) else None)
      else None)"

fun scanKw :: "string \<Rightarrow> string \<Rightarrow> string option" where
  "scanKw kw [] = None"
| "scanKw kw (c # cs) =
     (case kwAt kw (c # cs) of Some m \<Rightarrow> Some m | None \<Rightarrow> scanKw kw cs)"

text \<open>\<open>/\b([A-Za-z]{3})\s*->/i\<close>: the word boundary looks at the character before.\<close>

definition preArrowAt :: "char option \<Rightarrow> string \<Rightarrow> string option" where
  "preArrowAt prev s =
     (if (case prev of None \<Rightarrow> True | Some p \<Rightarrow> \<not> isWord p) then
        (case letters3 s of
           None \<Rightarrow> None
         | Some m \<Rightarrow> if take 2 (dropWhile isSpace (drop 3 s)) = ''->'' then Some m else None)
      else None)"

fun scanPreArrow :: "char option \<Rightarrow> string \<Rightarrow> string option" where
  "scanPreArrow prev [] = None"
| "scanPreArrow prev (c # cs) =
     (case preArrowAt prev (c # cs) of Some m \<Rightarrow> Some m | None \<Rightarrow> scanPreArrow (Some c) cs)"

text \<open>\<open>/->\s*([A-Za-z]{3})/i\<close>\<close>

definition postArrowAt :: "string \<Rightarrow> string option" where
  "postArrowAt s =
     (if take 2 s = ''->'' then letters3 (dropWhile isSpace (drop 2 s)) else None)"

fun scanPostArrow :: "string \<Rightarrow> string option" where
  "scanPostArrow [] = None"
| "scanPostArrow (c # cs) =
     (case postArrowAt (c # cs) of Some m \<Rightarrow> Some m | None \<Rightarrow> scanPostArrow cs)"

text \<open>\<open>/(\d{4}-\d{2}-\d{2})/\<close>\<close>

definition dateAt :: "string \<Rightarrow> string option" where
  "dateAt s =
     (if 10 \<le> length s \<and> list_all isDigit (take 4 s) \<and> s ! 4 = CHR ''-''
         \<and> list_all isDigit (take 2 (drop 5 s)) \<and> s ! 7 = CHR ''-''
         \<and> list_all isDigit (take 2 (drop 8 s))
      then Some (take 10 s) else None)"

fun scanDate :: "string \<Rightarrow> string option" where
  "scanDate [] = None"
| "scanDate (c # cs) =
     (case dateAt (c # cs) of Some m \<Rightarrow> Some m | None \<Rightarrow> scanDate cs)"

text \<open>
  \<open>(a || b)?.toUpperCase()\<close>: \<open>||\<close> passes over an absent and an empty string. What
  is put in upper case is a capture of three ASCII letters, whose upper case is three code
  units below 256 again (\<open>extractFrom_code_units\<close> and \<open>extractTo_code_units\<close>
  below), so it is read back as a string.
\<close>

definition orElse :: "string option \<Rightarrow> string option \<Rightarrow> string option" where
  "orElse a b = (case a of Some x \<Rightarrow> if x = [] then b else Some x | None \<Rightarrow> b)"

definition extractFrom :: "string \<Rightarrow> string option" where
  "extractFrom q =
     map_option (\<lambda>m. fromCodeUnits (toUpperCase m))
       (orElse (scanKw ''from'' q) (scanPreArrow None q))"

definition extractTo :: "string \<Rightarrow> string option" where
  "extractTo q =
     map_option (\<lambda>m. fromCodeUnits (toUpperCase m))
       (orElse (scanKw ''to'' q) (scanPostArrow q))"

definition extractDate :: "string \<Rightarrow> string option" where
  "extractDate q = scanDate q"

text \<open>\<open>/hotel|stay|night|overnight/i.test(q)\<close>\<close>

fun containsCI :: "string \<Rightarrow> string \<Rightarrow> bool" where
  "containsCI w [] = (w = [])"
| "containsCI w (c # cs) = (startsWithCI w (c # cs) \<or> containsCI w cs)"

definition mentionsHotel :: "string \<Rightarrow> bool" where
  "mentionsHotel q =
     (containsCI ''hotel'' q \<or> containsCI ''stay'' q \<or> containsCI ''night'' q
      \<or> containsCI ''overnight'' q)"

section \<open>Data model (lines 5 to 21)\<close>

datatype persona = Rich | Business

datatype role = User | Agent

text \<open>
  A message without its time stamp \<open>Date.now()\<close>. The numbers of a flight and of a
  hotel are the finite numbers JSON writes: on them the sign of a difference, which is all
  the comparators look at, is the sign of the exact difference, so the prices are reals;
  stars are whole numbers.
\<close>

type_synonym message = "role \<times> string"

record flight =
  f_id :: string
  f_from :: string
  f_to :: string
  f_date :: string
  f_depart :: string
  f_arrive :: string
  f_airline :: string
  f_class :: string
  f_price :: real
  f_overnight :: bool

record hotel =
  h_id :: string
  h_city :: string
  h_name :: string
  h_stars :: int
  h_price :: real

record query =
  q_from :: "string option"
  q_to :: "string option"
  q_date :: "string option"

record memory =
  persona :: persona
  lastQuery :: "query option"
  chosenFlightId :: "string option"
  hotelRequired :: "bool option"

text \<open>The state of the \<open>Chat\<close> component: its five \<open>useState\<close> cells.\<close>

record state =
  memory :: memory
  messages :: "message list"
  input :: string
  flights :: "flight list"
  hotels :: "hotel list"

text \<open>The requests a turn sends to the two search routes.\<close>

datatype effect =
  FlightSearch "(string \<times> string) list"
| HotelSearch string int

text \<open>\<open>memory.lastQuery?.from\<close> and its siblings.\<close>

definition lqFrom :: "memory \<Rightarrow> string option" where
  "lqFrom m = (case lastQuery m of None \<Rightarrow> None | Some l \<Rightarrow> q_from l)"

definition lqTo :: "memory \<Rightarrow> string option" where
  "lqTo m = (case lastQuery m of None \<Rightarrow> None | Some l \<Rightarrow> q_to l)"

definition lqDate :: "memory \<Rightarrow> string option" where
  "lqDate m = (case lastQuery m of None \<Rightarrow> None | Some l \<Rightarrow> q_date l)"

text \<open>The operator \<open>??\<close>.\<close>

definition coalesce :: "'a option \<Rightarrow> 'a option \<Rightarrow> 'a option" where
  "coalesce a b = (case a of Some x \<Rightarrow> Some x | None \<Rightarrow> b)"

section \<open>Sorting with a comparator\<close>

text \<open>
  \<open>Array.prototype.sort\<close> is stable (ECMAScript 2019): with a consistent comparator
  \<open>cmp\<close> its result is the one stable arrangement, which inserting each element, from
  the last to the first, in front of the first element it does not have to follow
  computes. \<open>cmp a b \<le> 0\<close> says that \<open>a\<close> need not come after \<open>b\<close>.
\<close>

fun insertBy :: "('a \<Rightarrow> 'a \<Rightarrow> real) \<Rightarrow> 'a \<Rightarrow> 'a list \<Rightarrow> 'a list" where
  "insertBy cmp x [] = [x]"
| "insertBy cmp x (y # ys) = (if cmp x y \<le> 0 then x # y # ys else y # insertBy cmp x ys)"

fun sortBy :: "('a \<Rightarrow> 'a \<Rightarrow> real) \<Rightarrow> 'a list \<Rightarrow> 'a list" where
  "sortBy cmp [] = []"
| "sortBy cmp (x # xs) = insertBy cmp x (sortBy cmp xs)"

section \<open>Flight ranking (\<open>personaScore\<close>, \<open>searchFlights\<close>)\<close>

definition personaScore :: "persona \<Rightarrow> flight \<Rightarrow> int" where
  "personaScore p f =
     (let cls = toLowerCase (f_class f) in
      if p = Rich then
        (if cls = ''first'' then 3 else 0) + (if cls = ''business'' then 2 else 0)
          - (if f_overnight f then 1 else 0)
      else
        (if cls = ''business'' then 3 else 0) + (if cls = ''economy'' then 1 else 0)
          + (if \<not> f_overnight f then 1 else 0))"

text \<open>\<open>personaScore(b) - personaScore(a) || a.price - b.price\<close>\<close>

definition cmpFlights :: "persona \<Rightarrow> flight \<Rightarrow> flight \<Rightarrow> real" where
  "cmpFlights p a b =
     (let d = real_of_int (personaScore p b - personaScore p a)
      in if d \<noteq> 0 then d else f_price a - f_price b)"

text \<open>
  The route \<open>/api/flights\<close>: the catalogue \<open>flights.json\<close> is a parameter, the query
  string a list of pairs, of which \<open>searchParams.get\<close> reads the first of a name.
\<close>

definition GET_flights :: "flight list \<Rightarrow> (string \<times> string) list \<Rightarrow> flight list" where
  "GET_flights catalogue params =
     (let from = map_option toUpperCase (map_of params ''from'');
          to = map_option toUpperCase (map_of params ''to'');
          date = map_of params ''date'';
          r1 = (case from of
                  Some v \<Rightarrow>
                    if v \<noteq> [] then filter (\<lambda>f. codeUnits (f_from f) = v) catalogue else catalogue
                | None \<Rightarrow> catalogue);
          r2 = (case to of
                  Some v \<Rightarrow> if v \<noteq> [] then filter (\<lambda>f. codeUnits (f_to f) = v) r1 else r1
                | None \<Rightarrow> r1)
      in (case date of Some v \<Rightarrow> if v \<noteq> [] then filter (\<lambda>f. f_date f = v) r2 else r2
          | None \<Rightarrow> r2))"

text \<open>
  \<open>Object.entries(params).filter(([,v]) => !!v)\<close>: the entries that are present and
  not empty, in the order \<open>from\<close>, \<open>to\<close>, \<open>date\<close> in which line 114 writes them.
\<close>

definition queryParams :: "query \<Rightarrow> (string \<times> string) list" where
  "queryParams l =
     concat (map (\<lambda>(k, v). case v of Some x \<Rightarrow> if x \<noteq> [] then [(k, x)] else [] | None \<Rightarrow> [])
       [(''from'', q_from l), (''to'', q_to l), (''date'', q_date l)])"

text \<open>Line 67: \<open>list.sort((a, b) => ...)\<close>\<close>

definition rankFlights :: "persona \<Rightarrow> flight list \<Rightarrow> flight list" where
  "rankFlights p xs = sortBy (cmpFlights p) xs"

definition searchFlights :: "flight list \<Rightarrow> persona \<Rightarrow> query \<Rightarrow> flight list" where
  "searchFlights catalogue p l = rankFlights p (GET_flights catalogue (queryParams l))"

section \<open>Hotel search (\<open>searchHotels\<close> and the route \<open>/api/hotels\<close>)\<close>

definition minStars :: "persona \<Rightarrow> int" where
  "minStars p = (if p = Rich then 5 else 4)"

text \<open>\<open>b.stars - a.stars || a.price - b.price\<close>\<close>

definition cmpHotels :: "hotel \<Rightarrow> hotel \<Rightarrow> real" where
  "cmpHotels a b =
     (let d = real_of_int (h_stars b - h_stars a)
      in if d \<noteq> 0 then d else h_price a - h_price b)"

text \<open>
  The route reads \<open>city\<close> and \<open>minStars\<close> from the query string; the number is taken
  here as the integer the client wrote, \<open>None\<close> where the parameter is missing
  (\<open>Number(searchParams.get('minStars') ?? 0)\<close>). The catalogue \<open>hotels.json\<close> is a
  parameter.
\<close>

definition GET_hotels :: "hotel list \<Rightarrow> string option \<Rightarrow> int option \<Rightarrow> hotel list" where
  "GET_hotels catalogue cityParam minStarsParam =
     (let city = map_option toUpperCase cityParam;
          ms = (case minStarsParam of Some n \<Rightarrow> n | None \<Rightarrow> 0);
          r1 = (case city of Some v \<Rightarrow>
                  if v \<noteq> [] then filter (\<lambda>h. toUpperCase (h_city h) = v) catalogue else catalogue
                | None \<Rightarrow> catalogue)
      in if ms \<noteq> 0 then filter (\<lambda>h. h_stars h \<ge> ms) r1 else r1)"

definition searchHotels :: "hotel list \<Rightarrow> persona \<Rightarrow> string \<Rightarrow> hotel list" where
  "searchHotels catalogue p city =
     sortBy cmpHotels (GET_hotels catalogue (Some city) (Some (minStars p)))"

section \<open>The conversation orchestrator (\<open>handleSubmit\<close>, \<open>selectFlight\<close>)\<close>

text \<open>
  An event handler is a closure of one render: \<open>memory\<close> and \<open>flights\<close> in its body
  are the constants that render destructured from \<open>useState\<close>, and a \<open>setFlights\<close> or
  \<open>setMemory\<close> call changes the cell for the next render, not these constants. So a
  handler is a function of the state \<open>st\<close> of its render, which it reads throughout, to
  the state its setter calls leave behind and the requests it sent. The two routes answer
  as their \<open>GET\<close> handlers compute.
\<close>

text \<open>Line 114.\<close>

definition mergeQuery ::
  "memory \<Rightarrow> string option \<Rightarrow> string option \<Rightarrow> string option \<Rightarrow> memory" where
  "mergeQuery m from to date =
     m\<lparr>lastQuery := Some \<lparr>q_from = coalesce from (lqFrom m), q_to = coalesce to (lqTo m),
                              q_date = coalesce date (lqDate m)\<rparr>\<rparr>"

text \<open>Lines 117 to 120; \<open>newMem.lastQuery ?? {}\<close> is the empty query when absent.\<close>

definition flightTurn :: "flight list \<Rightarrow> persona \<Rightarrow> memory \<Rightarrow> state \<Rightarrow> state \<times> effect list" where
  "flightTurn catalogue p newMem s =
     (let l = (case lastQuery newMem of Some l \<Rightarrow> l
               | None \<Rightarrow> \<lparr>q_from = None, q_to = None, q_date = None\<rparr>)
      in (s\<lparr>flights := searchFlights catalogue p l,
            messages := messages s @ [(Agent, ''I found flight options ranked by your persona.'')]\<rparr>,
          [FlightSearch (queryParams l)]))"

text \<open>Line 123: \<open>flights[0]?.overnight ?? false\<close> reads the list of the render.\<close>

definition needsHotel :: "string \<Rightarrow> flight list \<Rightarrow> bool" where
  "needsHotel q held =
     (mentionsHotel q \<or> (case held of [] \<Rightarrow> False | f # _ \<Rightarrow> f_overnight f))"

text \<open>Line 125: \<open>(newMem.lastQuery?.to ?? flights[0]?.to) || ''\<close>\<close>

definition arrivalCity :: "memory \<Rightarrow> flight list \<Rightarrow> string" where
  "arrivalCity newMem held =
     (case coalesce (lqTo newMem) (case held of [] \<Rightarrow> None | f # _ \<Rightarrow> Some (f_to f)) of
        Some c \<Rightarrow> c
      | None \<Rightarrow> [])"

text \<open>Lines 126 to 130.\<close>

definition hotelTurn :: "hotel list \<Rightarrow> persona \<Rightarrow> string \<Rightarrow> state \<Rightarrow> state \<times> effect list" where
  "hotelTurn catalogue p city s =
     (if city \<noteq> [] then
        (s\<lparr>memory := (memory s)\<lparr>hotelRequired := Some True\<rparr>,
           hotels := searchHotels catalogue p city,
           messages := messages s @
             [(Agent, ''Hotel is required in '' @ city @ ''. Suggested options listed.'')]\<rparr>,
         [HotelSearch city (minStars p)])
      else (s, []))"

definition handleSubmit :: "flight list \<Rightarrow> hotel list \<Rightarrow> state \<Rightarrow> state \<times> effect list" where
  "handleSubmit fcat hcat st =
     (let q = trim (input st) in
      if q = [] then (st, [])
      else
        let from = extractFrom q; to = extractTo q; date = extractDate q;
            newMem = mergeQuery (memory st) from to date;
            s1 = st\<lparr>input := [], messages := messages st @ [(User, q)], memory := newMem\<rparr>;
            r2 = (if from \<noteq> None \<or> to \<noteq> None \<or> date \<noteq> None \<or> flights st = []
                  then flightTurn fcat (persona (memory st)) newMem s1 else (s1, []));
            r3 = (if needsHotel q (flights st)
                  then hotelTurn hcat (persona (memory st)) (arrivalCity newMem (flights st)) (fst r2)
                  else (fst r2, []))
        in (fst r3, snd r2 @ snd r3))"

text \<open>
  \<open>selectFlight\<close>, lines 139 to 149. \<open>formatCurrency\<close> (\<open>Intl.NumberFormat\<close>) is the
  parameter \<open>fmt\<close>.
\<close>

definition selectFlight ::
  "(real \<Rightarrow> string) \<Rightarrow> hotel list \<Rightarrow> state \<Rightarrow> string \<Rightarrow> state \<times> effect list" where
  "selectFlight fmt hcat st ident =
     (case find (\<lambda>x. f_id x = ident) (flights st) of
        None \<Rightarrow> (st, [])
      | Some f \<Rightarrow>
          let m1 = (memory st)\<lparr>chosenFlightId := Some ident,
                     lastQuery := Some \<lparr>q_from = Some (f_from f), q_to = Some (f_to f),
                                         q_date = Some (f_date f)\<rparr>\<rparr>;
              msg1 = (Agent, ''Selected '' @ f_airline f @ '' '' @ f_id f @ '' '' @ f_from f @ ''?''
                        @ f_to f @ '' on '' @ f_date f @ '' ('' @ f_class f @ '', ''
                        @ fmt (f_price f) @ '').'')
          in if f_overnight f then
               (st\<lparr>memory := m1\<lparr>hotelRequired := Some True\<rparr>,
                   hotels := searchHotels hcat (persona (memory st)) (f_to f),
                   messages := messages st @
                     [msg1, (Agent, ''This is an overnight flight; I will arrange a hotel.'')]\<rparr>,
                [HotelSearch (f_to f) (minStars (persona (memory st)))])
             else (st\<lparr>memory := m1, messages := messages st @ [msg1]\<rparr>, []))"

section \<open>The memory store (\<open>loadMemory\<close>, lines 25 to 35)\<close>

text \<open>
  What \<open>JSON.parse\<close> returns. \<open>as Memory\<close> is a cast the compiler erases, so
  \<open>loadMemory\<close> hands back whatever object the spread builds: a map from property names to
  JSON values.
\<close>

datatype json =
  JNull
| JBool bool
| JNum real
| JStr string
| JArr "json list"
| JObj "(string \<times> json) list"

type_synonym jsobject = "string \<rightharpoonup> json"

text \<open>
  What the handler finds: no \<open>window\<close> (server render), a \<open>localStorage\<close> whose
  \<open>getItem\<close> throws, no item under the key (\<open>null\<close>), or the stored string together
  with what \<open>JSON.parse\<close> makes of it: \<open>None\<close> where it throws a \<open>SyntaxError\<close>.
\<close>

datatype storage =
  NoWindow
| GetItemThrows
| NoItem
| Item string "json option"

datatype exn = StorageError | SyntaxError

definition defaultMemory :: jsobject where
  "defaultMemory = [''persona'' \<mapsto> JStr ''Business'']"

text \<open>The decimal numeral of an index, as a property name.\<close>

definition digitCh :: "nat \<Rightarrow> char" where
  "digitCh d = char_of (48 + d)"

function decimal :: "nat \<Rightarrow> string" where
  "decimal n = (if n < 10 then [digitCh n] else decimal (n div 10) @ [digitCh (n mod 10)])"
  by pat_completeness auto
termination
  by (relation "measure id") auto

text \<open>
  The own enumerable properties that \<open>...parsed\<close> copies: those of an object (a later
  duplicate name wins in \<open>JSON.parse\<close>), the indices of an array or of a string, none of
  \<open>null\<close>, a boolean or a number.
\<close>

definition indexed :: "json list \<Rightarrow> (string \<times> json) list" where
  "indexed vs = map (\<lambda>i. (decimal i, vs ! i)) [0..<length vs]"

fun ownProps :: "json \<Rightarrow> (string \<times> json) list" where
  "ownProps (JObj kvs) = rev kvs"
| "ownProps (JArr vs) = indexed vs"
| "ownProps (JStr s) = indexed (map (\<lambda>c. JStr [c]) s)"
| "ownProps _ = []"

text \<open>The body of the \<open>try\<close> block, an exception as a value.\<close>

definition loadBody :: "storage \<Rightarrow> exn + jsobject" where
  "loadBody sto =
     (case sto of
        GetItemThrows \<Rightarrow> Inl StorageError
      | NoItem \<Rightarrow> Inr defaultMemory
      | Item raw parsed \<Rightarrow>
          if raw = [] then Inr defaultMemory
          else (case parsed of
                  None \<Rightarrow> Inl SyntaxError
                | Some v \<Rightarrow> Inr (defaultMemory ++ map_of (ownProps v)))
      | NoWindow \<Rightarrow> Inr defaultMemory)"

definition loadMemory :: "storage \<Rightarrow> jsobject" where
  "loadMemory sto =
     (if sto = NoWindow then defaultMemory
      else (case loadBody sto of Inl e \<Rightarrow> defaultMemory | Inr m \<Rightarrow> m))"

text \<open>A value of the type \<open>Persona\<close>.\<close>

definition isPersona :: "json \<Rightarrow> bool" where
  "isPersona v = (v = JStr ''Rich'' \<or> v = JStr ''Business'')"

section \<open>Concrete inputs\<close>

text \<open>The memory \<open>{ persona: 'Business' }\<close> and the state of the first render.\<close>

definition startMemory :: memory where
  "startMemory = \<lparr>persona = Business, lastQuery = None, chosenFlightId = None,
                   hotelRequired = None\<rparr>"

definition initialState :: "memory \<Rightarrow> string \<Rightarrow> state" where
  "initialState m inp = \<lparr>memory = m, messages = [], input = inp, flights = [], hotels = []\<rparr>"

text \<open>A flight from NYC to LAX and a hotel in LAX, for the examples below.\<close>

definition exFlight :: "string \<Rightarrow> string \<Rightarrow> real \<Rightarrow> bool \<Rightarrow> flight" where
  "exFlight i c p ov =
     \<lparr>f_id = i, f_from = ''NYC'', f_to = ''LAX'', f_date = ''2025-11-10'', f_depart = ''08:00'',
      f_arrive = ''11:30'', f_airline = ''AA'', f_class = c, f_price = p, f_overnight = ov\<rparr>"

definition exHotel :: "string \<Rightarrow> int \<Rightarrow> real \<Rightarrow> hotel" where
  "exHotel i n p = \<lparr>h_id = i, h_city = ''LAX'', h_name = ''Inn'', h_stars = n, h_price = p\<rparr>"

text \<open>The stored text \<open>{"persona":null}\<close>; the character 0x22 is the double quote.\<close>

definition nullPersonaBlob :: string where
  "nullPersonaBlob = ''{'' @ [CHR 0x22] @ ''persona'' @ [CHR 0x22] @ '':null}''"

text \<open>A memory that already knows a route, NYC to LAX.\<close>

definition knownMemory :: memory where
  "knownMemory = startMemory\<lparr>lastQuery :=
     Some \<lparr>q_from = Some ''NYC'', q_to = Some ''LAX'', q_date = None\<rparr>\<rparr>"



section \<open>Case mapping\<close>

lemma codeUnits_eq_iff: "codeUnits a = codeUnits b \<longleftrightarrow> a = b"
proof -
  have "inj (of_char :: char \<Rightarrow> nat)"
    by (rule inj_of_char)
  then have "inj (map (of_char :: char \<Rightarrow> nat))"
    by simp
  then show ?thesis
    unfolding codeUnits_def by (auto dest: injD)
qed

lemma codeUnits_Nil_iff: "codeUnits a = [] \<longleftrightarrow> a = []"
  by (simp add: codeUnits_def)

lemma upperCh_letter:
  "isAlpha c \<Longrightarrow> codeUnits (fromCodeUnits (upperCh c)) = upperCh c"
proof -
  assume a: "isAlpha c"
  have lt: "(of_char c :: nat) < 256"
    by simp
  from a have "upperCh c = [(of_char c :: nat) - 32] \<or> upperCh c = [of_char c]"
    by (auto simp: upperCh_def isAlpha_def isUpperCh_def isLowerCh_def isLatinLower_def)
  moreover from lt have "(of_char c :: nat) - 32 < 256"
    by arith
  ultimately show ?thesis
    using lt by (auto simp: codeUnits_def fromCodeUnits_def)
qed

lemma upper_capture:
  "list_all isAlpha m \<Longrightarrow> codeUnits (fromCodeUnits (toUpperCase m)) = toUpperCase m"
proof (induction m)
  case Nil
  show ?case by (simp add: toUpperCase_def codeUnits_def fromCodeUnits_def)
next
  case (Cons c m)
  then have "codeUnits (fromCodeUnits (upperCh c)) = upperCh c"
    and "codeUnits (fromCodeUnits (toUpperCase m)) = toUpperCase m"
    by (simp_all add: upperCh_letter)
  then show ?case
    by (simp add: toUpperCase_def codeUnits_def fromCodeUnits_def)
qed

lemma toUpperCase_Nil_iff: "toUpperCase m = [] \<longleftrightarrow> m = []"
  by (cases m) (auto simp: toUpperCase_def upperCh_def)

lemma lowerCh_small_letter: "isLowerCh (lowerCh c) \<Longrightarrow> isAlpha c"
proof -
  assume a: "isLowerCh (lowerCh c)"
  have lt: "(of_char c :: nat) < 256"
    by simp
  show ?thesis
  proof (cases "isUpperCh c \<or> isLatinUpper c")
    case True
    with lt have "(of_char (lowerCh c) :: nat) = of_char c + 32"
      by (auto simp: lowerCh_def isUpperCh_def isLatinUpper_def)
    with a True show ?thesis
      by (auto simp: isLowerCh_def isAlpha_def isUpperCh_def isLatinUpper_def)
  next
    case False
    with a show ?thesis
      by (simp add: lowerCh_def isAlpha_def)
  qed
qed

section \<open>What a text turn leaves behind\<close>

lemma handleSubmit_blank:
  "trim (input st) = [] \<Longrightarrow> handleSubmit fcat hcat st = (st, [])"
  by (simp add: handleSubmit_def)

lemma handleSubmit_effects:
  assumes "trim (input st) \<noteq> []"
  shows "snd (handleSubmit fcat hcat st) =
    (let q = trim (input st);
         newMem = mergeQuery (memory st) (extractFrom q) (extractTo q) (extractDate q)
     in (if extractFrom q \<noteq> None \<or> extractTo q \<noteq> None \<or> extractDate q \<noteq> None \<or> flights st = []
         then [FlightSearch (queryParams (the (lastQuery newMem)))] else [])
        @ (if needsHotel q (flights st) \<and> arrivalCity newMem (flights st) \<noteq> []
           then [HotelSearch (arrivalCity newMem (flights st)) (minStars (persona (memory st)))]
           else []))"
  using assms
  by (simp add: handleSubmit_def Let_def flightTurn_def hotelTurn_def mergeQuery_def)

lemma handleSubmit_memory:
  assumes "trim (input st) \<noteq> []"
  shows "memory (fst (handleSubmit fcat hcat st)) =
    (let q = trim (input st);
         newMem = mergeQuery (memory st) (extractFrom q) (extractTo q) (extractDate q)
     in if needsHotel q (flights st) \<and> arrivalCity newMem (flights st) \<noteq> []
        then newMem\<lparr>hotelRequired := Some True\<rparr> else newMem)"
  using assms
  by (simp add: handleSubmit_def Let_def flightTurn_def hotelTurn_def)

lemma handleSubmit_hotels:
  assumes "trim (input st) \<noteq> []"
  shows "hotels (fst (handleSubmit fcat hcat st)) =
    (let q = trim (input st);
         newMem = mergeQuery (memory st) (extractFrom q) (extractTo q) (extractDate q)
     in if needsHotel q (flights st) \<and> arrivalCity newMem (flights st) \<noteq> []
        then searchHotels hcat (persona (memory st)) (arrivalCity newMem (flights st))
        else hotels st)"
  using assms
  by (simp add: handleSubmit_def Let_def flightTurn_def hotelTurn_def)

lemma handleSubmit_flights:
  assumes "trim (input st) \<noteq> []"
  shows "flights (fst (handleSubmit fcat hcat st)) =
    (let q = trim (input st);
         newMem = mergeQuery (memory st) (extractFrom q) (extractTo q) (extractDate q)
     in if extractFrom q \<noteq> None \<or> extractTo q \<noteq> None \<or> extractDate q \<noteq> None \<or> flights st = []
        then searchFlights fcat (persona (memory st)) (the (lastQuery newMem))
        else flights st)"
  using assms
  by (simp add: handleSubmit_def Let_def flightTurn_def hotelTurn_def mergeQuery_def)

lemma handleSubmit_messages:
  assumes "trim (input st) \<noteq> []"
  shows "messages (fst (handleSubmit fcat hcat st)) =
    (let q = trim (input st);
         newMem = mergeQuery (memory st) (extractFrom q) (extractTo q) (extractDate q)
     in messages st @ [(User, q)]
        @ (if extractFrom q \<noteq> None \<or> extractTo q \<noteq> None \<or> extractDate q \<noteq> None \<or> flights st = []
           then [(Agent, ''I found flight options ranked by your persona.'')] else [])
        @ (if needsHotel q (flights st) \<and> arrivalCity newMem (flights st) \<noteq> []
           then [(Agent, ''Hotel is required in '' @ arrivalCity newMem (flights st)
                    @ ''. Suggested options listed.'')]
           else []))"
  using assms
  by (simp add: handleSubmit_def Let_def flightTurn_def hotelTurn_def)

lemma lq_mergeQuery:
  "lqFrom (mergeQuery m from to date) = coalesce from (lqFrom m)"
  "lqTo (mergeQuery m from to date) = coalesce to (lqTo m)"
  "lqDate (mergeQuery m from to date) = coalesce date (lqDate m)"
  by (simp_all add: mergeQuery_def lqFrom_def lqTo_def lqDate_def)

lemma lq_hotelRequired_update:
  "lqFrom (m\<lparr>hotelRequired := b\<rparr>) = lqFrom m"
  "lqTo (m\<lparr>hotelRequired := b\<rparr>) = lqTo m"
  "lqDate (m\<lparr>hotelRequired := b\<rparr>) = lqDate m"
  by (simp_all add: lqFrom_def lqTo_def lqDate_def)

section \<open>Sticky merge of the last query\<close>

text \<open>
  Claim C2. Merging what a turn extracted into \<open>Memory.lastQuery\<close> keeps what the turn
  did not say again: the merged \<open>from\<close> is the extracted one when there is one and the
  remembered one otherwise, and the same holds for \<open>to\<close> and \<open>date\<close>. A text turn with
  a non-blank input leaves exactly this merged query in the memory.
\<close>

theorem sticky_merge:
  "lqFrom (mergeQuery m from to date) = (case from of Some v \<Rightarrow> Some v | None \<Rightarrow> lqFrom m)
   \<and> lqTo (mergeQuery m from to date) = (case to of Some v \<Rightarrow> Some v | None \<Rightarrow> lqTo m)
   \<and> lqDate (mergeQuery m from to date) = (case date of Some v \<Rightarrow> Some v | None \<Rightarrow> lqDate m)
   \<and> (trim (input st) \<noteq> [] \<longrightarrow>
        lastQuery (memory (fst (handleSubmit fcat hcat st)))
          = lastQuery (mergeQuery (memory st) (extractFrom (trim (input st)))
              (extractTo (trim (input st))) (extractDate (trim (input st)))))"
proof -
  have "trim (input st) \<noteq> [] \<Longrightarrow>
        lastQuery (memory (fst (handleSubmit fcat hcat st)))
          = lastQuery (mergeQuery (memory st) (extractFrom (trim (input st)))
              (extractTo (trim (input st))) (extractDate (trim (input st))))"
    by (simp add: handleSubmit_memory Let_def)
  then show ?thesis
    by (simp add: lq_mergeQuery coalesce_def)
qed

theorem sticky_merge_witness:
  "trim (input (initialState knownMemory ''to SFO'')) \<noteq> []
   \<and> lqFrom (mergeQuery knownMemory None (Some ''SFO'') None) = Some ''NYC''
   \<and> lqTo (mergeQuery knownMemory None (Some ''SFO'') None) = Some ''SFO''
   \<and> lastQuery (memory (fst (handleSubmit [] [] (initialState knownMemory ''to SFO''))))
       = Some \<lparr>q_from = Some ''NYC'', q_to = Some ''SFO'', q_date = None\<rparr>"
proof -
  have q: "trim (input (initialState knownMemory ''to SFO'')) = ''to SFO''"
    by code_simp
  have ex: "extractFrom ''to SFO'' = None" "extractTo ''to SFO'' = Some ''SFO''"
    "extractDate ''to SFO'' = None"
    by code_simp+
  have m: "lqFrom knownMemory = Some ''NYC''" "lqTo knownMemory = Some ''LAX''"
    "lqDate knownMemory = None"
    by (simp_all add: knownMemory_def startMemory_def lqFrom_def lqTo_def lqDate_def)
  have st: "memory (initialState knownMemory ''to SFO'') = knownMemory"
    by (simp add: initialState_def)
  from sticky_merge [of knownMemory None "Some ''SFO''" None
      "initialState knownMemory ''to SFO''" "[]" "[]"]
  show ?thesis
    by (simp add: q ex m st mergeQuery_def coalesce_def)
qed

section \<open>Selecting a flight that is not held\<close>

text \<open>
  Claim C9. Selecting an identifier that no flight of the held list carries changes
  nothing: the state (memory, transcript, flight and hotel lists) is the one before and no
  search request is sent.
\<close>

theorem select_unknown_noop:
  "ident \<notin> f_id ` set (flights st) \<Longrightarrow> selectFlight fmt hcat st ident = (st, [])"
proof -
  assume "ident \<notin> f_id ` set (flights st)"
  then have "find (\<lambda>x. f_id x = ident) (flights st) = None"
    by (auto simp: find_None_iff)
  then show ?thesis
    by (simp add: selectFlight_def)
qed

theorem select_unknown_noop_witness:
  "''ZZ9'' \<notin> f_id ` set (flights ((initialState startMemory [])\<lparr>flights := [exFlight ''AA1'' ''first'' 900 True]\<rparr>))
   \<and> selectFlight (\<lambda>n. ''$'') [exHotel ''H1'' 5 300]
        ((initialState startMemory [])\<lparr>flights := [exFlight ''AA1'' ''first'' 900 True]\<rparr>) ''ZZ9''
       = ((initialState startMemory [])\<lparr>flights := [exFlight ''AA1'' ''first'' 900 True]\<rparr>, [])"
proof -
  have h: "''ZZ9'' \<notin> f_id ` set (flights ((initialState startMemory [])\<lparr>flights := [exFlight ''AA1'' ''first'' 900 True]\<rparr>))"
    by (simp add: exFlight_def)
  from select_unknown_noop [OF h] h show ?thesis by blast
qed

section \<open>Sorting with a consistent comparator\<close>

lemma mset_insertBy: "mset (insertBy cmp x ys) = add_mset x (mset ys)"
  by (induction ys) auto

lemma mset_sortBy: "mset (sortBy cmp xs) = mset xs"
  by (induction xs) (auto simp: mset_insertBy)

lemma set_insertBy: "set (insertBy cmp x ys) = insert x (set ys)"
  by (induction ys) auto

lemma set_sortBy: "set (sortBy cmp xs) = set xs"
  by (induction xs) (auto simp: set_insertBy)

lemma sorted_insertBy:
  assumes total: "\<And>a b. cmp a b \<le> 0 \<or> cmp b a \<le> 0"
    and trans: "\<And>a b c. cmp a b \<le> 0 \<Longrightarrow> cmp b c \<le> 0 \<Longrightarrow> cmp a c \<le> 0"
    and srt: "sorted_wrt (\<lambda>a b. cmp a b \<le> 0) ys"
  shows "sorted_wrt (\<lambda>a b. cmp a b \<le> 0) (insertBy cmp x ys)"
  using srt
proof (induction ys)
  case Nil
  then show ?case by simp
next
  case (Cons y ys)
  show ?case
  proof (cases "cmp x y \<le> 0")
    case True
    with Cons.prems trans show ?thesis by auto
  next
    case False
    with total have "cmp y x \<le> 0" by blast
    with False Cons show ?thesis by (auto simp: set_insertBy)
  qed
qed

lemma sorted_sortBy:
  assumes "\<And>a b. cmp a b \<le> 0 \<or> cmp b a \<le> 0"
    and "\<And>a b c. cmp a b \<le> 0 \<Longrightarrow> cmp b c \<le> 0 \<Longrightarrow> cmp a c \<le> 0"
  shows "sorted_wrt (\<lambda>a b. cmp a b \<le> 0) (sortBy cmp xs)"
proof (induction xs)
  case Nil
  show ?case by simp
next
  case (Cons x xs)
  from sorted_insertBy [of cmp "sortBy cmp xs" x, OF assms Cons.IH]
  show ?case by simp
qed

lemma filter_insertBy_in:
  assumes "P x" and "\<And>y. P y \<Longrightarrow> cmp x y \<le> 0"
  shows "filter P (insertBy cmp x ys) = x # filter P ys"
  using assms by (induction ys) auto

lemma filter_insertBy_out:
  "\<not> P x \<Longrightarrow> filter P (insertBy cmp x ys) = filter P ys"
  by (induction ys) auto

lemma sortBy_stable:
  assumes "\<And>a b. P a \<Longrightarrow> P b \<Longrightarrow> cmp a b \<le> 0"
  shows "filter P (sortBy cmp xs) = filter P xs"
proof (induction xs)
  case Nil
  show ?case by simp
next
  case (Cons x xs)
  show ?case
  proof (cases "P x")
    case True
    then have "filter P (insertBy cmp x (sortBy cmp xs)) = x # filter P (sortBy cmp xs)"
      using assms by (intro filter_insertBy_in) auto
    with True Cons.IH show ?thesis by simp
  next
    case False
    with Cons.IH show ?thesis by (simp add: filter_insertBy_out)
  qed
qed

lemma sortBy_sorted_id:
  "sorted_wrt (\<lambda>a b. cmp a b \<le> 0) xs \<Longrightarrow> sortBy cmp xs = xs"
proof (induction xs)
  case Nil
  show ?case by simp
next
  case (Cons x xs)
  then have "sortBy cmp xs = xs" by simp
  moreover from Cons.prems have "insertBy cmp x xs = x # xs" by (cases xs) auto
  ultimately show ?case by simp
qed

lemma cmpFlights_le:
  "cmpFlights p a b \<le> 0 \<longleftrightarrow>
     personaScore p b < personaScore p a
     \<or> (personaScore p a = personaScore p b \<and> f_price a \<le> f_price b)"
  by (auto simp: cmpFlights_def Let_def)

lemma cmpHotels_le:
  "cmpHotels a b \<le> 0 \<longleftrightarrow>
     h_stars b < h_stars a \<or> (h_stars a = h_stars b \<and> h_price a \<le> h_price b)"
  by (auto simp: cmpHotels_def Let_def)

lemma cmpFlights_total: "cmpFlights p a b \<le> 0 \<or> cmpFlights p b a \<le> 0"
  unfolding cmpFlights_le by linarith

lemma cmpFlights_trans:
  "cmpFlights p a b \<le> 0 \<Longrightarrow> cmpFlights p b c \<le> 0 \<Longrightarrow> cmpFlights p a c \<le> 0"
  unfolding cmpFlights_le by linarith

lemma cmpHotels_total: "cmpHotels a b \<le> 0 \<or> cmpHotels b a \<le> 0"
  unfolding cmpHotels_le by linarith

lemma cmpHotels_trans:
  "cmpHotels a b \<le> 0 \<Longrightarrow> cmpHotels b c \<le> 0 \<Longrightarrow> cmpHotels a c \<le> 0"
  unfolding cmpHotels_le by linarith

lemma sorted_rankFlights:
  "sorted_wrt (\<lambda>a b. cmpFlights p a b \<le> 0) (rankFlights p xs)"
  unfolding rankFlights_def
  by (rule sorted_sortBy) (rule cmpFlights_total, erule (1) cmpFlights_trans)

section \<open>Ranking of flights\<close>

text \<open>
  Claim C5. Ranking rearranges the flights (nothing is lost or added) so that a higher
  persona score comes first and, at equal score, a lower price; flights equal in score and
  price keep the order they had in the input (the sort is stable); and ranking a ranked
  list again with the same persona returns it unchanged.
\<close>

theorem rank_stable_idempotent:
  "mset (rankFlights p xs) = mset xs
   \<and> sorted_wrt (\<lambda>a b. personaScore p b < personaScore p a
         \<or> (personaScore p a = personaScore p b \<and> f_price a \<le> f_price b)) (rankFlights p xs)
   \<and> filter (\<lambda>f. personaScore p f = s \<and> f_price f = c) (rankFlights p xs)
       = filter (\<lambda>f. personaScore p f = s \<and> f_price f = c) xs
   \<and> rankFlights p (rankFlights p xs) = rankFlights p xs"
proof -
  have perm: "mset (rankFlights p xs) = mset xs"
    by (simp add: rankFlights_def mset_sortBy)
  have srt: "sorted_wrt (\<lambda>a b. personaScore p b < personaScore p a
         \<or> (personaScore p a = personaScore p b \<and> f_price a \<le> f_price b)) (rankFlights p xs)"
    using sorted_rankFlights [of p xs] by (simp add: cmpFlights_le)
  have stable: "filter (\<lambda>f. personaScore p f = s \<and> f_price f = c) (rankFlights p xs)
       = filter (\<lambda>f. personaScore p f = s \<and> f_price f = c) xs"
    unfolding rankFlights_def
    by (rule sortBy_stable) (simp add: cmpFlights_le)
  have idem: "rankFlights p (rankFlights p xs) = rankFlights p xs"
    using sorted_rankFlights [of p xs]
    by (simp add: rankFlights_def sortBy_sorted_id)
  from perm srt stable idem show ?thesis by blast
qed

theorem rank_stable_idempotent_witness:
  "rankFlights Rich [exFlight ''E1'' ''economy'' 100 False, exFlight ''F1'' ''first'' 500 False,
                     exFlight ''F2'' ''FIRST'' 500 False]
     = [exFlight ''F1'' ''first'' 500 False, exFlight ''F2'' ''FIRST'' 500 False,
        exFlight ''E1'' ''economy'' 100 False]
   \<and> filter (\<lambda>f. personaScore Rich f = 3 \<and> f_price f = 500)
        (rankFlights Rich [exFlight ''E1'' ''economy'' 100 False, exFlight ''F1'' ''first'' 500 False,
                           exFlight ''F2'' ''FIRST'' 500 False])
       = [exFlight ''F1'' ''first'' 500 False, exFlight ''F2'' ''FIRST'' 500 False]
   \<and> rankFlights Rich (rankFlights Rich [exFlight ''E1'' ''economy'' 100 False,
        exFlight ''F1'' ''first'' 500 False, exFlight ''F2'' ''FIRST'' 500 False])
       = rankFlights Rich [exFlight ''E1'' ''economy'' 100 False, exFlight ''F1'' ''first'' 500 False,
                           exFlight ''F2'' ''FIRST'' 500 False]"
proof -
  have r: "rankFlights Rich [exFlight ''E1'' ''economy'' 100 False, exFlight ''F1'' ''first'' 500 False,
                     exFlight ''F2'' ''FIRST'' 500 False]
     = [exFlight ''F1'' ''first'' 500 False, exFlight ''F2'' ''FIRST'' 500 False,
        exFlight ''E1'' ''economy'' 100 False]"
    by code_simp
  have f: "filter (\<lambda>f. personaScore Rich f = 3 \<and> f_price f = 500)
        [exFlight ''E1'' ''economy'' 100 False, exFlight ''F1'' ''first'' 500 False,
         exFlight ''F2'' ''FIRST'' 500 False]
       = [exFlight ''F1'' ''first'' 500 False, exFlight ''F2'' ''FIRST'' 500 False]"
    by code_simp
  from rank_stable_idempotent [of Rich "[exFlight ''E1'' ''economy'' 100 False,
      exFlight ''F1'' ''first'' 500 False, exFlight ''F2'' ''FIRST'' 500 False]" 3 500]
  show ?thesis
    using r f by metis
qed

section \<open>Hotels of a search\<close>

lemma GET_hotels_stars:
  "n \<noteq> 0 \<Longrightarrow> h \<in> set (GET_hotels cat city (Some n)) \<Longrightarrow> n \<le> h_stars h"
  by (auto simp: GET_hotels_def Let_def split: option.splits if_splits)

lemma searchHotels_stars:
  "h \<in> set (searchHotels cat p city) \<Longrightarrow> minStars p \<le> h_stars h"
  unfolding searchHotels_def set_sortBy
  by (rule GET_hotels_stars) (auto simp: minStars_def)

lemma sorted_searchHotels:
  "sorted_wrt (\<lambda>a b. cmpHotels a b \<le> 0) (searchHotels cat p city)"
  unfolding searchHotels_def
  by (rule sorted_sortBy) (rule cmpHotels_total, erule (1) cmpHotels_trans)

lemma handleSubmit_hotel_search:
  assumes "HotelSearch c n \<in> set (snd (handleSubmit fcat hcat st))"
  shows "hotels (fst (handleSubmit fcat hcat st)) = searchHotels hcat (persona (memory st)) c
     \<and> n = minStars (persona (memory st))
     \<and> persona (memory (fst (handleSubmit fcat hcat st))) = persona (memory st)"
proof (cases "trim (input st) = []")
  case True
  with assms show ?thesis
    by (simp add: handleSubmit_blank)
next
  case False
  from assms show ?thesis
    by (simp add: handleSubmit_effects [OF False] handleSubmit_hotels [OF False]
        handleSubmit_memory [OF False] Let_def mergeQuery_def split: if_splits)
qed

lemma selectFlight_hotel_search:
  assumes "HotelSearch c n \<in> set (snd (selectFlight fmt hcat st ident))"
  shows "hotels (fst (selectFlight fmt hcat st ident)) = searchHotels hcat (persona (memory st)) c
     \<and> n = minStars (persona (memory st))
     \<and> persona (memory (fst (selectFlight fmt hcat st ident))) = persona (memory st)"
  using assms
  by (auto simp: selectFlight_def Let_def split: option.splits if_splits)

text \<open>
  Claim C4. Every hotel of the list a hotel search stores has at least the stars the
  persona asks for, five for \<open>Rich\<close> and four for \<open>Business\<close>, and the list is in
  descending order of stars, hotels of equal stars in ascending order of price. The list
  shown after a text turn or a selection that sent a hotel search is this list, for the
  persona of the memory.
\<close>

theorem hotels_meet_min_stars:
  "(\<forall>h \<in> set (searchHotels cat p city).
      (p = Rich \<longrightarrow> 5 \<le> h_stars h) \<and> (p = Business \<longrightarrow> 4 \<le> h_stars h))
   \<and> sorted_wrt (\<lambda>a b. h_stars b < h_stars a \<or> (h_stars a = h_stars b \<and> h_price a \<le> h_price b))
        (searchHotels cat p city)
   \<and> (HotelSearch c n \<in> set (snd (handleSubmit fcat cat st)) \<longrightarrow>
        hotels (fst (handleSubmit fcat cat st))
          = searchHotels cat (persona (memory (fst (handleSubmit fcat cat st)))) c)
   \<and> (HotelSearch c n \<in> set (snd (selectFlight fmt cat st ident)) \<longrightarrow>
        hotels (fst (selectFlight fmt cat st ident))
          = searchHotels cat (persona (memory (fst (selectFlight fmt cat st ident)))) c)"
proof -
  have stars: "\<And>h. h \<in> set (searchHotels cat p city) \<Longrightarrow>
      (p = Rich \<longrightarrow> 5 \<le> h_stars h) \<and> (p = Business \<longrightarrow> 4 \<le> h_stars h)"
    using searchHotels_stars [of _ cat p city] by (auto simp: minStars_def)
  have order: "sorted_wrt (\<lambda>a b. h_stars b < h_stars a \<or> (h_stars a = h_stars b \<and> h_price a \<le> h_price b))
        (searchHotels cat p city)"
    using sorted_searchHotels [of cat p city] by (simp add: cmpHotels_le)
  have turn: "HotelSearch c n \<in> set (snd (handleSubmit fcat cat st)) \<longrightarrow>
        hotels (fst (handleSubmit fcat cat st))
          = searchHotels cat (persona (memory (fst (handleSubmit fcat cat st)))) c"
    using handleSubmit_hotel_search [of c n fcat cat st] by simp
  have sel: "HotelSearch c n \<in> set (snd (selectFlight fmt cat st ident)) \<longrightarrow>
        hotels (fst (selectFlight fmt cat st ident))
          = searchHotels cat (persona (memory (fst (selectFlight fmt cat st ident)))) c"
    using selectFlight_hotel_search [of c n fmt cat st ident] by simp
  from stars order turn sel show ?thesis
    by blast
qed

theorem hotels_meet_min_stars_witness:
  "searchHotels [exHotel ''H1'' 4 120, exHotel ''H2'' 5 400, exHotel ''H3'' 5 350, exHotel ''H4'' 3 80]
      Rich ''lax'' = [exHotel ''H3'' 5 350, exHotel ''H2'' 5 400]
   \<and> list_all (\<lambda>h. 5 \<le> h_stars h) (searchHotels [exHotel ''H1'' 4 120, exHotel ''H2'' 5 400,
          exHotel ''H3'' 5 350, exHotel ''H4'' 3 80] Rich ''lax'')
   \<and> HotelSearch ''LAX'' 5 \<in> set (snd (selectFlight (\<lambda>n. ''$'')
          [exHotel ''H1'' 4 120, exHotel ''H2'' 5 400, exHotel ''H3'' 5 350, exHotel ''H4'' 3 80]
          ((initialState (startMemory\<lparr>persona := Rich\<rparr>) [])\<lparr>flights :=
             [exFlight ''AA1'' ''first'' 900 True]\<rparr>) ''AA1''))
   \<and> hotels (fst (selectFlight (\<lambda>n. ''$'')
          [exHotel ''H1'' 4 120, exHotel ''H2'' 5 400, exHotel ''H3'' 5 350, exHotel ''H4'' 3 80]
          ((initialState (startMemory\<lparr>persona := Rich\<rparr>) [])\<lparr>flights :=
             [exFlight ''AA1'' ''first'' 900 True]\<rparr>) ''AA1''))
       = searchHotels [exHotel ''H1'' 4 120, exHotel ''H2'' 5 400, exHotel ''H3'' 5 350,
          exHotel ''H4'' 3 80] Rich ''LAX''"
proof -
  have r: "searchHotels [exHotel ''H1'' 4 120, exHotel ''H2'' 5 400, exHotel ''H3'' 5 350, exHotel ''H4'' 3 80]
      Rich ''lax'' = [exHotel ''H3'' 5 350, exHotel ''H2'' 5 400]"
    by code_simp
  have e: "snd (selectFlight (\<lambda>n. ''$'')
          [exHotel ''H1'' 4 120, exHotel ''H2'' 5 400, exHotel ''H3'' 5 350, exHotel ''H4'' 3 80]
          ((initialState (startMemory\<lparr>persona := Rich\<rparr>) [])\<lparr>flights :=
             [exFlight ''AA1'' ''first'' 900 True]\<rparr>) ''AA1'') = [HotelSearch ''LAX'' 5]"
    by (simp add: selectFlight_def initialState_def startMemory_def exFlight_def minStars_def)
  have m: "persona (memory (fst (selectFlight (\<lambda>n. ''$'')
          [exHotel ''H1'' 4 120, exHotel ''H2'' 5 400, exHotel ''H3'' 5 350, exHotel ''H4'' 3 80]
          ((initialState (startMemory\<lparr>persona := Rich\<rparr>) [])\<lparr>flights :=
             [exFlight ''AA1'' ''first'' 900 True]\<rparr>) ''AA1''))) = Rich"
    by (simp add: selectFlight_def initialState_def startMemory_def exFlight_def)
  note t = hotels_meet_min_stars [of
      "[exHotel ''H1'' 4 120, exHotel ''H2'' 5 400, exHotel ''H3'' 5 350, exHotel ''H4'' 3 80]"
      Rich "''lax''" "''LAX''" 5 "[]"
      "(initialState (startMemory\<lparr>persona := Rich\<rparr>) [])\<lparr>flights :=
             [exFlight ''AA1'' ''first'' 900 True]\<rparr>" "\<lambda>n. ''$''" "''AA1''"]
  from t have stars: "list_all (\<lambda>h. 5 \<le> h_stars h) (searchHotels [exHotel ''H1'' 4 120, exHotel ''H2'' 5 400,
          exHotel ''H3'' 5 350, exHotel ''H4'' 3 80] Rich ''lax'')"
    unfolding list_all_iff by blast
  from t e m have shown: "hotels (fst (selectFlight (\<lambda>n. ''$'')
          [exHotel ''H1'' 4 120, exHotel ''H2'' 5 400, exHotel ''H3'' 5 350, exHotel ''H4'' 3 80]
          ((initialState (startMemory\<lparr>persona := Rich\<rparr>) [])\<lparr>flights :=
             [exFlight ''AA1'' ''first'' 900 True]\<rparr>) ''AA1''))
       = searchHotels [exHotel ''H1'' 4 120, exHotel ''H2'' 5 400, exHotel ''H3'' 5 350,
          exHotel ''H4'' 3 80] Rich ''LAX''"
    by simp
  from r stars e shown show ?thesis
    by simp
qed

section \<open>Persona score\<close>

text \<open>
  Claim C6. Of two flights with the same overnight flag, under \<open>Rich\<close> a first-class
  flight scores at least what a business-class flight scores, and under \<open>Business\<close> a
  business-class flight at least what an economy flight scores. The class is compared
  without regard to case (flights whose classes agree up to case score the same), and a
  class that is none of the three names adds nothing: the score is then the overnight part
  alone.
\<close>

theorem score_monotone:
  assumes "f_overnight a = f_overnight b"
  shows "(toLowerCase (f_class a) = ''first'' \<and> toLowerCase (f_class b) = ''business''
            \<longrightarrow> personaScore Rich b \<le> personaScore Rich a)
       \<and> (toLowerCase (f_class a) = ''business'' \<and> toLowerCase (f_class b) = ''economy''
            \<longrightarrow> personaScore Business b \<le> personaScore Business a)
       \<and> (toLowerCase (f_class a) = toLowerCase (f_class b) \<longrightarrow> personaScore p a = personaScore p b)
       \<and> (toLowerCase (f_class a) \<notin> {''first'', ''business'', ''economy''}
            \<longrightarrow> personaScore Rich a = (if f_overnight a then - 1 else 0)
              \<and> personaScore Business a = (if f_overnight a then 0 else 1))"
  using assms by (simp add: personaScore_def Let_def)

theorem score_monotone_witness:
  "f_overnight (exFlight ''F1'' ''FIRST'' 900 True) = f_overnight (exFlight ''B1'' ''Business'' 500 True)
   \<and> toLowerCase (f_class (exFlight ''F1'' ''FIRST'' 900 True)) = ''first''
   \<and> toLowerCase (f_class (exFlight ''B1'' ''Business'' 500 True)) = ''business''
   \<and> personaScore Rich (exFlight ''B1'' ''Business'' 500 True)
       \<le> personaScore Rich (exFlight ''F1'' ''FIRST'' 900 True)"
proof -
  have h: "f_overnight (exFlight ''F1'' ''FIRST'' 900 True) = f_overnight (exFlight ''B1'' ''Business'' 500 True)"
    by (simp add: exFlight_def)
  have c: "toLowerCase (f_class (exFlight ''F1'' ''FIRST'' 900 True)) = ''first''"
    "toLowerCase (f_class (exFlight ''B1'' ''Business'' 500 True)) = ''business''"
    by code_simp+
  from score_monotone [OF h] h c show ?thesis by blast
qed

section \<open>The extractor on a keyword followed by a token\<close>

lemma isAlpha_not_space: "isAlpha c \<Longrightarrow> \<not> isSpace c"
  by (auto simp: isAlpha_def isSpace_def isUpperCh_def isLowerCh_def)

lemma dropWhile_space_letters:
  assumes "list_all isSpace ws" and "tok \<noteq> []" and "isAlpha (hd tok)"
  shows "dropWhile isSpace (ws @ tok @ rest) = tok @ rest"
proof -
  from assms(2,3) have "\<not> isSpace (hd (tok @ rest))"
    by (simp add: isAlpha_not_space)
  with assms(2) have "dropWhile isSpace (tok @ rest) = tok @ rest"
    by (cases tok) auto
  with assms(1) show ?thesis
    by (simp add: dropWhile_append list_all_iff)
qed

lemma letters3_token:
  assumes "3 \<le> length tok" and "list_all isAlpha (take 3 tok)"
  shows "letters3 (tok @ rest) = Some (take 3 tok)"
  using assms by (simp add: letters3_def)

lemma kwAt_token:
  assumes kw: "toLowerCase kw' = kw"
    and ws: "ws \<noteq> []" "list_all isSpace ws"
    and tok: "3 \<le> length tok" "list_all isAlpha (take 3 tok)"
  shows "kwAt kw (kw' @ ws @ tok @ rest) = Some (take 3 tok)"
proof -
  from kw have len: "length kw' = length kw"
    by (auto simp: toLowerCase_def)
  from kw len have sw: "startsWithCI kw (kw' @ ws @ tok @ rest)"
    by (simp add: startsWithCI_def)
  from ws obtain w ws' where w: "ws = w # ws'" "isSpace w" "list_all isSpace ws'"
    by (cases ws) auto
  from tok have t: "tok \<noteq> []" "isAlpha (hd tok)"
    by (cases tok; simp)+
  have "dropWhile isSpace (ws' @ tok @ rest) = tok @ rest"
    using w(3) t by (rule dropWhile_space_letters)
  with sw len w tok show ?thesis
    by (simp add: kwAt_def letters3_token)
qed

lemma scanKw_skip:
  "\<forall>i < length pre. kwAt kw (drop i (pre @ s)) = None \<Longrightarrow> scanKw kw (pre @ s) = scanKw kw s"
proof (induction pre)
  case Nil
  show ?case by simp
next
  case (Cons c pre)
  from Cons.prems have "kwAt kw (c # pre @ s) = None"
    by (auto dest: spec [of _ 0])
  moreover have "\<forall>i < length pre. kwAt kw (drop i (pre @ s)) = None"
  proof (intro allI impI)
    fix i assume "i < length pre"
    with Cons.prems have "kwAt kw (drop (Suc i) ((c # pre) @ s)) = None"
      by (metis Suc_less_eq length_Cons)
    then show "kwAt kw (drop i (pre @ s)) = None" by simp
  qed
  ultimately show ?case
    using Cons.IH by simp
qed

lemma kwAt_Nil: "kwAt kw [] = None"
  by (simp add: kwAt_def)

lemma scanKw_here: "kwAt kw s = Some m \<Longrightarrow> scanKw kw s = Some m"
  by (cases s) (simp_all add: kwAt_Nil)

lemma scanKw_leftmost:
  assumes "\<forall>i < length pre. kwAt kw (drop i (pre @ s)) = None" and "kwAt kw s = Some m"
  shows "scanKw kw (pre @ s) = Some m"
  using assms by (simp add: scanKw_skip scanKw_here)

lemma scanKw_found:
  "kwAt kw (drop i q) \<noteq> None \<Longrightarrow> scanKw kw q \<noteq> None"
proof (induction q arbitrary: i)
  case Nil
  then show ?case by (simp add: kwAt_Nil)
next
  case (Cons c q)
  show ?case
  proof (cases i)
    case 0
    with Cons.prems show ?thesis by (auto split: option.splits)
  next
    case (Suc j)
    with Cons.prems have "kwAt kw (drop j q) \<noteq> None" by simp
    with Cons.IH show ?thesis by (auto split: option.splits)
  qed
qed

lemma scanKw_letters:
  "scanKw kw q = Some m \<Longrightarrow> length m = 3 \<and> list_all isAlpha m"
proof (induction q)
  case Nil
  then show ?case by simp
next
  case (Cons c q)
  show ?case
  proof (cases "kwAt kw (c # q)")
    case None
    with Cons show ?thesis by simp
  next
    case (Some m')
    with Cons.prems have "kwAt kw (c # q) = Some m" by simp
    then show ?thesis
      by (auto simp: kwAt_def letters3_def split: if_splits list.splits)
  qed
qed

lemma orElse_Some: "a = Some m \<Longrightarrow> m \<noteq> [] \<Longrightarrow> orElse a b = Some m"
  by (simp add: orElse_def)

text \<open>
  What the extractor puts in upper case is always three ASCII letters, so reading the
  result back as a string loses nothing: the code units of an extracted field are the
  upper case of the capture.
\<close>

lemma scanPreArrow_alpha: "scanPreArrow prev q = Some m \<Longrightarrow> list_all isAlpha m"
proof (induction q arbitrary: prev)
  case Nil
  then show ?case by simp
next
  case (Cons c q)
  show ?case
  proof (cases "preArrowAt prev (c # q)")
    case None
    with Cons show ?thesis by simp
  next
    case (Some m')
    with Cons.prems have "preArrowAt prev (c # q) = Some m" by simp
    then show ?thesis
      by (auto simp: preArrowAt_def letters3_def split: if_splits option.splits)
  qed
qed

lemma scanPostArrow_alpha: "scanPostArrow q = Some m \<Longrightarrow> list_all isAlpha m"
proof (induction q)
  case Nil
  then show ?case by simp
next
  case (Cons c q)
  show ?case
  proof (cases "postArrowAt (c # q)")
    case None
    with Cons show ?thesis by simp
  next
    case (Some m')
    with Cons.prems have "postArrowAt (c # q) = Some m" by simp
    then show ?thesis
      by (auto simp: postArrowAt_def letters3_def split: if_splits)
  qed
qed

lemma orElse_cases: "orElse a b = Some m \<Longrightarrow> a = Some m \<or> b = Some m"
  by (auto simp: orElse_def split: option.splits if_splits)

lemma extractFrom_code_units:
  "map_option codeUnits (extractFrom q)
     = map_option toUpperCase (orElse (scanKw ''from'' q) (scanPreArrow None q))"
proof (cases "orElse (scanKw ''from'' q) (scanPreArrow None q)")
  case None
  then show ?thesis by (simp add: extractFrom_def)
next
  case (Some m)
  then have "list_all isAlpha m"
    by (auto dest!: orElse_cases dest: scanKw_letters scanPreArrow_alpha)
  then have "codeUnits (fromCodeUnits (toUpperCase m)) = toUpperCase m"
    by (rule upper_capture)
  with Some show ?thesis by (simp add: extractFrom_def)
qed

lemma extractTo_code_units:
  "map_option codeUnits (extractTo q)
     = map_option toUpperCase (orElse (scanKw ''to'' q) (scanPostArrow q))"
proof (cases "orElse (scanKw ''to'' q) (scanPostArrow q)")
  case None
  then show ?thesis by (simp add: extractTo_def)
next
  case (Some m)
  then have "list_all isAlpha m"
    by (auto dest!: orElse_cases dest: scanKw_letters scanPostArrow_alpha)
  then have "codeUnits (fromCodeUnits (toUpperCase m)) = toUpperCase m"
    by (rule upper_capture)
  with Some show ?thesis by (simp add: extractTo_def)
qed

text \<open>
  Claim C10, amended. The extraction matches a prefix of the token, and the keyword as a
  substring: where the letters \<open>from\<close> (or \<open>to\<close>), in either case and not necessarily
  a word of their own, are followed by white space and an alphabetic token longer than
  three letters, the field is not left absent; and where no earlier place of the utterance
  matches the pattern of that keyword, the field is the first three letters of that token
  in upper case.
\<close>

theorem prefix_match:
  assumes q: "q = pre @ kw @ ws @ tok @ rest"
    and ws: "ws \<noteq> []" "list_all isSpace ws"
    and tok: "3 < length tok" "list_all isAlpha tok"
  shows "(toLowerCase kw = ''from'' \<and> (\<forall>i < length pre. kwAt ''from'' (drop i q) = None)
            \<longrightarrow> map_option codeUnits (extractFrom q) = Some (toUpperCase (take 3 tok)))
       \<and> (toLowerCase kw = ''to'' \<and> (\<forall>i < length pre. kwAt ''to'' (drop i q) = None)
            \<longrightarrow> map_option codeUnits (extractTo q) = Some (toUpperCase (take 3 tok)))
       \<and> (toLowerCase kw = ''from'' \<longrightarrow> extractFrom q \<noteq> None)
       \<and> (toLowerCase kw = ''to'' \<longrightarrow> extractTo q \<noteq> None)"
proof -
  from tok have t3: "3 \<le> length tok" "list_all isAlpha (take 3 tok)" "take 3 tok \<noteq> []"
    by (auto simp: list_all_iff dest: in_set_takeD)
  have at: "kwAt k (kw @ ws @ tok @ rest) = Some (take 3 tok)" if "toLowerCase kw = k" for k
    using that ws t3(1,2) by (rule kwAt_token)
  have left: "scanKw k q = Some (take 3 tok)"
    if "toLowerCase kw = k" "\<forall>i < length pre. kwAt k (drop i q) = None" for k
    using that at [of k] unfolding q by (intro scanKw_leftmost) auto
  have some: "\<exists>m. scanKw k q = Some m \<and> m \<noteq> []" if "toLowerCase kw = k" for k
  proof -
    from at [OF that] have "kwAt k (drop (length pre) q) \<noteq> None"
      by (simp add: q)
    then have "scanKw k q \<noteq> None" by (rule scanKw_found)
    then obtain m where m: "scanKw k q = Some m" by blast
    from scanKw_letters [OF m] have "m \<noteq> []" by auto
    with m show ?thesis by blast
  qed
  have up: "codeUnits (fromCodeUnits (toUpperCase (take 3 tok))) = toUpperCase (take 3 tok)"
    using t3(2) by (rule upper_capture)
  show ?thesis
    using left [of "''from''"] left [of "''to''"] some [of "''from''"] some [of "''to''"] t3(3) up
    by (auto simp: extractFrom_def extractTo_def orElse_Some)
qed

theorem prefix_match_witness:
  "''go From  London now'' = ''go '' @ ''From'' @ ''  '' @ ''London'' @ '' now''
   \<and> ''  '' \<noteq> [] \<and> list_all isSpace ''  '' \<and> 3 < length ''London'' \<and> list_all isAlpha ''London''
   \<and> toLowerCase ''From'' = ''from''
   \<and> kwAt ''from'' (drop 0 ''go From  London now'') = None
   \<and> kwAt ''from'' (drop 1 ''go From  London now'') = None
   \<and> kwAt ''from'' (drop 2 ''go From  London now'') = None
   \<and> extractFrom ''go From  London now'' = Some ''LON''"
proof -
  have q: "''go From  London now'' = ''go '' @ ''From'' @ ''  '' @ ''London'' @ '' now''"
    by simp
  have ws: "''  '' \<noteq> []" "list_all isSpace ''  ''"
    by code_simp+
  have tok: "3 < length ''London''" "list_all isAlpha ''London''"
    by code_simp+
  have kw: "toLowerCase ''From'' = ''from''"
    by code_simp
  have k: "kwAt ''from'' ''go From  London now'' = None"
    "kwAt ''from'' ''o From  London now'' = None"
    "kwAt ''from'' '' From  London now'' = None"
    by code_simp+
  have "length ''go '' = Suc (Suc (Suc 0))"
    by simp
  then have left: "\<forall>i < length ''go ''. kwAt ''from'' (drop i ''go From  London now'') = None"
    by (simp add: All_less_Suc k)
  have up: "toUpperCase (take 3 ''London'') = codeUnits ''LON''"
    by code_simp
  from prefix_match [OF q ws tok] kw left
  have "map_option codeUnits (extractFrom ''go From  London now'') = Some (codeUnits ''LON'')"
    unfolding up by blast
  then have "extractFrom ''go From  London now'' = Some ''LON''"
    by (auto simp: codeUnits_eq_iff)
  with q ws tok kw k show ?thesis
    by simp
qed

text \<open>
  As the claim is written it fails: in \<open>photo shoot to London\<close> the word \<open>to\<close> is
  followed by \<open>London\<close>, and the destination extracted is \<open>SHO\<close>, from the \<open>to\<close> that
  ends \<open>photo\<close>; in \<open>from Paris from London\<close> the second \<open>from\<close> is followed by
  \<open>London\<close> and the origin is \<open>PAR\<close>.
\<close>

theorem prefix_match_counterexample:
  "''photo shoot to London'' = ''photo shoot '' @ ''to'' @ '' '' @ ''London'' @ []
   \<and> extractTo ''photo shoot to London'' = Some ''SHO''
   \<and> map_option codeUnits (extractTo ''photo shoot to London'')
       \<noteq> Some (toUpperCase (take 3 ''London''))
   \<and> ''from Paris from London'' = ''from Paris '' @ ''from'' @ '' '' @ ''London'' @ []
   \<and> extractFrom ''from Paris from London'' = Some ''PAR''
   \<and> map_option codeUnits (extractFrom ''from Paris from London'')
       \<noteq> Some (toUpperCase (take 3 ''London''))"
proof -
  have a: "extractTo ''photo shoot to London'' = Some ''SHO''"
    by code_simp
  have b: "extractFrom ''from Paris from London'' = Some ''PAR''"
    by code_simp
  have c: "toUpperCase (take 3 ''London'') = codeUnits ''LON''"
    by code_simp
  show ?thesis
    unfolding a b c by (simp add: codeUnits_eq_iff)
qed

section \<open>The scenario of the placeholder text\<close>

text \<open>
  Claim C8. From \<open>flights from NYC to LAX on 2025-11-10\<close> the extractor takes from NYC,
  to LAX and the date 2025-11-10; a turn with this input and persona \<open>Business\<close> sends,
  first of all and as its only flight search, the query \<open>from=NYC\<close>, \<open>to=LAX\<close>,
  \<open>date=2025-11-10\<close>, and the list it stores is the ranking of what the route answers to
  these three parameters.
\<close>

theorem scenario_nyc_lax:
  "extractFrom ''flights from NYC to LAX on 2025-11-10'' = Some ''NYC''
   \<and> extractTo ''flights from NYC to LAX on 2025-11-10'' = Some ''LAX''
   \<and> extractDate ''flights from NYC to LAX on 2025-11-10'' = Some ''2025-11-10''
   \<and> (input st = ''flights from NYC to LAX on 2025-11-10'' \<and> persona (memory st) = Business \<longrightarrow>
        take 1 (snd (handleSubmit fcat hcat st))
          = [FlightSearch [(''from'', ''NYC''), (''to'', ''LAX''), (''date'', ''2025-11-10'')]]
        \<and> (\<forall>ps. FlightSearch ps \<in> set (snd (handleSubmit fcat hcat st)) \<longrightarrow>
              ps = [(''from'', ''NYC''), (''to'', ''LAX''), (''date'', ''2025-11-10'')])
        \<and> flights (fst (handleSubmit fcat hcat st))
          = rankFlights Business (GET_flights fcat
              [(''from'', ''NYC''), (''to'', ''LAX''), (''date'', ''2025-11-10'')]))"
proof -
  have e: "extractFrom ''flights from NYC to LAX on 2025-11-10'' = Some ''NYC''"
    "extractTo ''flights from NYC to LAX on 2025-11-10'' = Some ''LAX''"
    "extractDate ''flights from NYC to LAX on 2025-11-10'' = Some ''2025-11-10''"
    by code_simp+
  have t: "trim ''flights from NYC to LAX on 2025-11-10'' = ''flights from NYC to LAX on 2025-11-10''"
    by code_simp
  have p: "queryParams \<lparr>q_from = Some ''NYC'', q_to = Some ''LAX'', q_date = Some ''2025-11-10''\<rparr>
      = [(''from'', ''NYC''), (''to'', ''LAX''), (''date'', ''2025-11-10'')]"
    by (simp add: queryParams_def)
  have "take 1 (snd (handleSubmit fcat hcat st))
          = [FlightSearch [(''from'', ''NYC''), (''to'', ''LAX''), (''date'', ''2025-11-10'')]]
        \<and> (\<forall>ps. FlightSearch ps \<in> set (snd (handleSubmit fcat hcat st)) \<longrightarrow>
              ps = [(''from'', ''NYC''), (''to'', ''LAX''), (''date'', ''2025-11-10'')])
        \<and> flights (fst (handleSubmit fcat hcat st))
          = rankFlights Business (GET_flights fcat
              [(''from'', ''NYC''), (''to'', ''LAX''), (''date'', ''2025-11-10'')])"
    if i: "input st = ''flights from NYC to LAX on 2025-11-10''" and b: "persona (memory st) = Business"
  proof -
    from i t have ne: "trim (input st) \<noteq> []" by simp
    show ?thesis
      by (simp add: handleSubmit_effects [OF ne] handleSubmit_flights [OF ne] i t e p b
          mergeQuery_def coalesce_def searchFlights_def Let_def)
  qed
  with e show ?thesis by blast
qed

theorem scenario_nyc_lax_witness:
  "input (initialState startMemory ''flights from NYC to LAX on 2025-11-10'')
     = ''flights from NYC to LAX on 2025-11-10''
   \<and> persona (memory (initialState startMemory ''flights from NYC to LAX on 2025-11-10'')) = Business
   \<and> take 1 (snd (handleSubmit [exFlight ''AA1'' ''business'' 900 False] []
         (initialState startMemory ''flights from NYC to LAX on 2025-11-10'')))
       = [FlightSearch [(''from'', ''NYC''), (''to'', ''LAX''), (''date'', ''2025-11-10'')]]"
proof -
  have h: "input (initialState startMemory ''flights from NYC to LAX on 2025-11-10'')
     = ''flights from NYC to LAX on 2025-11-10''"
    "persona (memory (initialState startMemory ''flights from NYC to LAX on 2025-11-10'')) = Business"
    by (simp_all add: initialState_def startMemory_def)
  from scenario_nyc_lax [of "initialState startMemory ''flights from NYC to LAX on 2025-11-10''"
      "[exFlight ''AA1'' ''business'' 900 False]" "[]"] h
  show ?thesis
    by blast
qed

section \<open>Loading the memory\<close>

text \<open>
  Claim C7, amended. \<open>loadMemory\<close> raises nothing: an exception of the \<open>try\<close> block
  ends in the default. It returns the default \<open>{persona: Business}\<close> when there is no
  \<open>window\<close>, when reading the store throws, when nothing or the empty string is stored
  and when the stored text does not parse; for a text that parses it returns the own
  properties of the parsed value laid over the default, unvalidated. So the result always
  has a \<open>persona\<close> property, which is \<open>Business\<close> unless the parsed value brings a
  \<open>persona\<close> of its own, and then it is that value, whatever it is.
\<close>

theorem load_never_raises:
  "loadMemory NoWindow = defaultMemory
   \<and> loadMemory GetItemThrows = defaultMemory
   \<and> loadMemory NoItem = defaultMemory
   \<and> loadMemory (Item [] parsed) = defaultMemory
   \<and> loadMemory (Item raw None) = defaultMemory
   \<and> (\<forall>e. loadBody sto = Inl e \<longrightarrow> loadMemory sto = defaultMemory)
   \<and> (raw \<noteq> [] \<longrightarrow> loadMemory (Item raw (Some v)) = defaultMemory ++ map_of (ownProps v))
   \<and> (raw \<noteq> [] \<longrightarrow> loadMemory (Item raw (Some v)) ''persona''
        = (case map_of (ownProps v) ''persona'' of None \<Rightarrow> Some (JStr ''Business'') | Some x \<Rightarrow> Some x))
   \<and> loadMemory sto ''persona'' \<noteq> None"
proof -
  have d: "defaultMemory ''persona'' = Some (JStr ''Business'')"
    by (simp add: defaultMemory_def)
  have absent: "loadMemory NoWindow = defaultMemory" "loadMemory GetItemThrows = defaultMemory"
    "loadMemory NoItem = defaultMemory" "loadMemory (Item [] parsed) = defaultMemory"
    "loadMemory (Item raw None) = defaultMemory"
    by (simp_all add: loadMemory_def loadBody_def)
  have caught: "\<forall>e. loadBody sto = Inl e \<longrightarrow> loadMemory sto = defaultMemory"
    by (auto simp: loadMemory_def)
  have merged: "raw \<noteq> [] \<longrightarrow> loadMemory (Item raw (Some v)) = defaultMemory ++ map_of (ownProps v)"
    by (simp add: loadMemory_def loadBody_def)
  have pers: "raw \<noteq> [] \<longrightarrow> loadMemory (Item raw (Some v)) ''persona''
        = (case map_of (ownProps v) ''persona'' of None \<Rightarrow> Some (JStr ''Business'') | Some x \<Rightarrow> Some x)"
    by (simp add: loadMemory_def loadBody_def d map_add_def split: option.splits)
  have present: "loadMemory sto ''persona'' \<noteq> None"
    by (cases sto) (auto simp: loadMemory_def loadBody_def d map_add_def split: option.splits)
  from absent caught merged pers present show ?thesis
    by blast
qed

theorem load_never_raises_witness:
  "loadBody GetItemThrows = Inl StorageError
   \<and> loadMemory GetItemThrows = defaultMemory
   \<and> ''[]'' \<noteq> []
   \<and> loadMemory (Item ''[]'' (Some (JArr []))) = defaultMemory
   \<and> loadMemory (Item ''[]'' (Some (JArr []))) ''persona'' = Some (JStr ''Business'')"
proof -
  have b: "loadBody GetItemThrows = Inl StorageError"
    by (simp add: loadBody_def)
  have r: "''[]'' \<noteq> []"
    by simp
  have o: "map_of (ownProps (JArr [])) = Map.empty"
    by (simp add: indexed_def)
  have d: "defaultMemory ''persona'' = Some (JStr ''Business'')"
    by (simp add: defaultMemory_def)
  from load_never_raises [of "None" "''[]''" GetItemThrows "JArr []"] b r o d
  show ?thesis
    by simp
qed

text \<open>
  As the claim is written it fails: the stored text \<open>{"persona":null}\<close> parses, and the
  memory returned has \<open>persona\<close> \<open>null\<close>, which is no persona, and is not the default.
\<close>

theorem load_null_persona:
  "loadMemory (Item nullPersonaBlob (Some (JObj [(''persona'', JNull)]))) ''persona'' = Some JNull
   \<and> \<not> isPersona JNull
   \<and> loadMemory (Item nullPersonaBlob (Some (JObj [(''persona'', JNull)]))) \<noteq> defaultMemory"
proof -
  have ne: "nullPersonaBlob \<noteq> []"
    by (simp add: nullPersonaBlob_def)
  have p: "loadMemory (Item nullPersonaBlob (Some (JObj [(''persona'', JNull)]))) ''persona'' = Some JNull"
    by (simp add: loadMemory_def loadBody_def ne defaultMemory_def)
  have d: "defaultMemory ''persona'' = Some (JStr ''Business'')"
    by (simp add: defaultMemory_def)
  from p d have "loadMemory (Item nullPersonaBlob (Some (JObj [(''persona'', JNull)]))) \<noteq> defaultMemory"
    by (metis json.distinct(5) option.inject)
  with p show ?thesis
    by (simp add: isPersona_def)
qed

section \<open>The hotel requirement and the list of the render\<close>

text \<open>
  Claim C1, at a failing input. The first turn of a session, \<open>flights from NYC to LAX\<close>,
  with a catalogue whose one matching flight is overnight: the search of this turn ranks
  that overnight flight first, and yet no hotel search is sent, no hotel is listed and
  \<open>hotelRequired\<close> stays unset, because line 123 reads \<open>flights[0]\<close> of the list the
  render held, which is empty.
\<close>

theorem stale_top_flight:
  "flights (fst (handleSubmit [exFlight ''AA1'' ''business'' 900 True] [exHotel ''H1'' 4 120]
       (initialState startMemory ''flights from NYC to LAX'')))
     = [exFlight ''AA1'' ''business'' 900 True]
   \<and> f_overnight (exFlight ''AA1'' ''business'' 900 True)
   \<and> snd (handleSubmit [exFlight ''AA1'' ''business'' 900 True] [exHotel ''H1'' 4 120]
       (initialState startMemory ''flights from NYC to LAX''))
     = [FlightSearch [(''from'', ''NYC''), (''to'', ''LAX'')]]
   \<and> hotels (fst (handleSubmit [exFlight ''AA1'' ''business'' 900 True] [exHotel ''H1'' 4 120]
       (initialState startMemory ''flights from NYC to LAX''))) = []
   \<and> hotelRequired (memory (fst (handleSubmit [exFlight ''AA1'' ''business'' 900 True]
       [exHotel ''H1'' 4 120] (initialState startMemory ''flights from NYC to LAX'')))) = None"
proof -
  have t: "trim ''flights from NYC to LAX'' = ''flights from NYC to LAX''"
    by code_simp
  have e: "extractFrom ''flights from NYC to LAX'' = Some ''NYC''"
    "extractTo ''flights from NYC to LAX'' = Some ''LAX''"
    "extractDate ''flights from NYC to LAX'' = None"
    by code_simp+
  have n: "\<not> needsHotel ''flights from NYC to LAX'' []"
    by code_simp
  have p: "queryParams \<lparr>q_from = Some ''NYC'', q_to = Some ''LAX'', q_date = None\<rparr>
      = [(''from'', ''NYC''), (''to'', ''LAX'')]"
    by (simp add: queryParams_def)
  have up: "toUpperCase ''NYC'' = codeUnits ''NYC''" "toUpperCase ''LAX'' = codeUnits ''LAX''"
    by code_simp+
  have g: "GET_flights [exFlight ''AA1'' ''business'' 900 True] [(''from'', ''NYC''), (''to'', ''LAX'')]
      = [exFlight ''AA1'' ''business'' 900 True]"
    by (simp add: GET_flights_def up exFlight_def codeUnits_eq_iff codeUnits_Nil_iff)
  have s: "searchFlights [exFlight ''AA1'' ''business'' 900 True] Business
      \<lparr>q_from = Some ''NYC'', q_to = Some ''LAX'', q_date = None\<rparr>
     = [exFlight ''AA1'' ''business'' 900 True]"
    by (simp add: searchFlights_def rankFlights_def p g)
  have i: "input (initialState startMemory ''flights from NYC to LAX'') = ''flights from NYC to LAX''"
    "flights (initialState startMemory ''flights from NYC to LAX'') = []"
    "hotels (initialState startMemory ''flights from NYC to LAX'') = []"
    "memory (initialState startMemory ''flights from NYC to LAX'') = startMemory"
    by (simp_all add: initialState_def)
  have ne: "trim (input (initialState startMemory ''flights from NYC to LAX'')) \<noteq> []"
    by (simp add: i t)
  have m: "mergeQuery startMemory (Some ''NYC'') (Some ''LAX'') None
      = startMemory\<lparr>lastQuery := Some \<lparr>q_from = Some ''NYC'', q_to = Some ''LAX'', q_date = None\<rparr>\<rparr>"
    by (simp add: mergeQuery_def coalesce_def startMemory_def lqDate_def)
  have b: "persona startMemory = Business" "hotelRequired startMemory = None"
    by (simp_all add: startMemory_def)
  have o: "f_overnight (exFlight ''AA1'' ''business'' 900 True)"
    by (simp add: exFlight_def)
  show ?thesis
    by (simp add: handleSubmit_effects [OF ne] handleSubmit_flights [OF ne]
        handleSubmit_hotels [OF ne] handleSubmit_memory [OF ne] i t e n s p m b o)
qed

theorem stale_top_flight_witness:
  "(case flights (fst (handleSubmit [exFlight ''AA1'' ''business'' 900 True] [exHotel ''H1'' 4 120]
        (initialState startMemory ''flights from NYC to LAX''))) of
      [] \<Rightarrow> False | f # fs \<Rightarrow> f_overnight f)
   \<and> (\<forall>c n. HotelSearch c n \<notin> set (snd (handleSubmit [exFlight ''AA1'' ''business'' 900 True]
        [exHotel ''H1'' 4 120] (initialState startMemory ''flights from NYC to LAX''))))"
  using stale_top_flight by simp

section \<open>The city of a hotel search\<close>

lemma scanPostArrow_letters: "scanPostArrow q = Some m \<Longrightarrow> length m = 3"
proof (induction q)
  case Nil
  then show ?case by simp
next
  case (Cons c q)
  show ?case
  proof (cases "postArrowAt (c # q)")
    case None
    with Cons show ?thesis by simp
  next
    case (Some m')
    with Cons.prems have "postArrowAt (c # q) = Some m" by simp
    then show ?thesis
      by (auto simp: postArrowAt_def letters3_def split: if_splits)
  qed
qed

lemma extractTo_nonempty:
  assumes "extractTo q = Some c"
  shows "c \<noteq> []"
proof -
  from assms obtain m where m: "orElse (scanKw ''to'' q) (scanPostArrow q) = Some m"
    and c: "c = fromCodeUnits (toUpperCase m)"
    by (auto simp: extractTo_def)
  from m have "m \<noteq> []"
    by (auto simp: orElse_def split: option.splits if_splits dest: scanPostArrow_letters)
  with c show ?thesis by (simp add: fromCodeUnits_def toUpperCase_Nil_iff)
qed

lemma arrivalCity_merge:
  "arrivalCity (mergeQuery m from to date) held =
     (case to of Some c \<Rightarrow> c
      | None \<Rightarrow> (case lqTo m of Some c \<Rightarrow> c
                 | None \<Rightarrow> (case held of [] \<Rightarrow> [] | f # _ \<Rightarrow> f_to f)))"
  by (simp add: arrivalCity_def lq_mergeQuery coalesce_def split: option.splits list.splits)

lemma hotel_outcome:
  assumes ne: "trim (input st) \<noteq> []"
    and need: "needsHotel (trim (input st)) (flights st)"
    and city: "arrivalCity (mergeQuery (memory st) (extractFrom (trim (input st)))
        (extractTo (trim (input st))) (extractDate (trim (input st)))) (flights st) = c"
    and c: "c \<noteq> []"
  shows "last (snd (handleSubmit fcat hcat st)) = HotelSearch c (minStars (persona (memory st)))
     \<and> last (messages (fst (handleSubmit fcat hcat st)))
         = (Agent, ''Hotel is required in '' @ c @ ''. Suggested options listed.'')
     \<and> hotels (fst (handleSubmit fcat hcat st)) = searchHotels hcat (persona (memory st)) c
     \<and> hotelRequired (memory (fst (handleSubmit fcat hcat st))) = Some True"
  using need city c
  by (simp add: handleSubmit_effects [OF ne] handleSubmit_messages [OF ne]
      handleSubmit_hotels [OF ne] handleSubmit_memory [OF ne] Let_def)

lemma hotel_no_outcome:
  assumes ne: "trim (input st) \<noteq> []"
    and city: "arrivalCity (mergeQuery (memory st) (extractFrom (trim (input st)))
        (extractTo (trim (input st))) (extractDate (trim (input st)))) (flights st) = []"
  shows "(\<forall>c n. HotelSearch c n \<notin> set (snd (handleSubmit fcat hcat st)))
     \<and> (messages (fst (handleSubmit fcat hcat st)) = messages st @ [(User, trim (input st))]
        \<or> messages (fst (handleSubmit fcat hcat st))
            = messages st @ [(User, trim (input st)),
                (Agent, ''I found flight options ranked by your persona.'')])
     \<and> hotels (fst (handleSubmit fcat hcat st)) = hotels st
     \<and> hotelRequired (memory (fst (handleSubmit fcat hcat st))) = hotelRequired (memory st)"
  using city
  by (simp add: handleSubmit_effects [OF ne] handleSubmit_messages [OF ne]
      handleSubmit_hotels [OF ne] handleSubmit_memory [OF ne] Let_def mergeQuery_def)

text \<open>
  Claim C3, amended. Take a text turn whose utterance mentions a hotel keyword, or which
  leaves the flight list as it was held with an overnight flight on top. The city is the
  destination extracted from the utterance; if there is none, the destination stored in
  \<open>Memory.lastQuery\<close>, and when the stored destination is the empty string there is no
  city and the flights are not asked; if none is stored and the turn leaves the flight list
  as it was held, the destination of its first flight. With a city that is not empty the
  turn ends with the hotel search for it, with the minimum stars of the persona, stores
  the hotels found, sets \<open>hotelRequired\<close> and ends the transcript with the message that
  names the city. With no city (an empty stored destination; or none stored and the
  unchanged flight list empty or its first flight without destination) the turn completes
  with no hotel search and no hotel message, the hotel list and \<open>hotelRequired\<close> as they
  were. A turn whose own search replaces the flight list reads the overnight flag and the
  flight destination from the list held before: that is the subject of claim C1 and no
  part of this statement.
\<close>

theorem hotel_city_priority:
  assumes ne: "trim (input st) \<noteq> []"
    and required: "mentionsHotel (trim (input st))
        \<or> (flights (fst (handleSubmit fcat hcat st)) = flights st
            \<and> (\<exists>f fs. flights st = f # fs \<and> f_overnight f))"
  shows "(extractTo (trim (input st)) = Some c
          \<or> (extractTo (trim (input st)) = None \<and> lqTo (memory st) = Some c \<and> c \<noteq> [])
          \<or> (extractTo (trim (input st)) = None \<and> lqTo (memory st) = None
              \<and> flights (fst (handleSubmit fcat hcat st)) = flights st
              \<and> (\<exists>f fs. flights st = f # fs \<and> f_to f = c) \<and> c \<noteq> [])
        \<longrightarrow> last (snd (handleSubmit fcat hcat st)) = HotelSearch c (minStars (persona (memory st)))
          \<and> last (messages (fst (handleSubmit fcat hcat st)))
              = (Agent, ''Hotel is required in '' @ c @ ''. Suggested options listed.'')
          \<and> hotels (fst (handleSubmit fcat hcat st)) = searchHotels hcat (persona (memory st)) c
          \<and> hotelRequired (memory (fst (handleSubmit fcat hcat st))) = Some True)
     \<and> (extractTo (trim (input st)) = None
          \<and> (lqTo (memory st) = Some []
              \<or> (lqTo (memory st) = None
                  \<and> flights (fst (handleSubmit fcat hcat st)) = flights st
                  \<and> (flights st = [] \<or> (\<exists>f fs. flights st = f # fs \<and> f_to f = []))))
        \<longrightarrow> (\<forall>c n. HotelSearch c n \<notin> set (snd (handleSubmit fcat hcat st)))
          \<and> (messages (fst (handleSubmit fcat hcat st)) = messages st @ [(User, trim (input st))]
             \<or> messages (fst (handleSubmit fcat hcat st))
                 = messages st @ [(User, trim (input st)),
                     (Agent, ''I found flight options ranked by your persona.'')])
          \<and> hotels (fst (handleSubmit fcat hcat st)) = hotels st
          \<and> hotelRequired (memory (fst (handleSubmit fcat hcat st))) = hotelRequired (memory st))"
proof -
  from required have need: "needsHotel (trim (input st)) (flights st)"
    by (auto simp: needsHotel_def)
  have first: "last (snd (handleSubmit fcat hcat st)) = HotelSearch c (minStars (persona (memory st)))
          \<and> last (messages (fst (handleSubmit fcat hcat st)))
              = (Agent, ''Hotel is required in '' @ c @ ''. Suggested options listed.'')
          \<and> hotels (fst (handleSubmit fcat hcat st)) = searchHotels hcat (persona (memory st)) c
          \<and> hotelRequired (memory (fst (handleSubmit fcat hcat st))) = Some True"
    if src: "extractTo (trim (input st)) = Some c
          \<or> (extractTo (trim (input st)) = None \<and> lqTo (memory st) = Some c \<and> c \<noteq> [])
          \<or> (extractTo (trim (input st)) = None \<and> lqTo (memory st) = None
              \<and> flights (fst (handleSubmit fcat hcat st)) = flights st
              \<and> (\<exists>f fs. flights st = f # fs \<and> f_to f = c) \<and> c \<noteq> [])"
  proof -
    from src have city: "arrivalCity (mergeQuery (memory st) (extractFrom (trim (input st)))
        (extractTo (trim (input st))) (extractDate (trim (input st)))) (flights st) = c"
      by (auto simp: arrivalCity_merge)
    from src have "c \<noteq> []"
      by (auto dest: extractTo_nonempty)
    with hotel_outcome [OF ne need city] show ?thesis
      by blast
  qed
  have second: "(\<forall>c n. HotelSearch c n \<notin> set (snd (handleSubmit fcat hcat st)))
          \<and> (messages (fst (handleSubmit fcat hcat st)) = messages st @ [(User, trim (input st))]
             \<or> messages (fst (handleSubmit fcat hcat st))
                 = messages st @ [(User, trim (input st)),
                     (Agent, ''I found flight options ranked by your persona.'')])
          \<and> hotels (fst (handleSubmit fcat hcat st)) = hotels st
          \<and> hotelRequired (memory (fst (handleSubmit fcat hcat st))) = hotelRequired (memory st)"
    if none: "extractTo (trim (input st)) = None
          \<and> (lqTo (memory st) = Some []
              \<or> (lqTo (memory st) = None
                  \<and> flights (fst (handleSubmit fcat hcat st)) = flights st
                  \<and> (flights st = [] \<or> (\<exists>f fs. flights st = f # fs \<and> f_to f = []))))"
  proof -
    from none have city: "arrivalCity (mergeQuery (memory st) (extractFrom (trim (input st)))
        (extractTo (trim (input st))) (extractDate (trim (input st)))) (flights st) = []"
      by (auto simp: arrivalCity_merge)
    from hotel_no_outcome [OF ne city] show ?thesis
      by blast
  qed
  from first second show ?thesis
    by blast
qed

theorem hotel_city_priority_witness:
  "trim (input (initialState startMemory ''hotel to LAX'')) \<noteq> []
   \<and> mentionsHotel (trim (input (initialState startMemory ''hotel to LAX'')))
   \<and> extractTo (trim (input (initialState startMemory ''hotel to LAX''))) = Some ''LAX''
   \<and> last (snd (handleSubmit [] [exHotel ''H1'' 4 120] (initialState startMemory ''hotel to LAX'')))
       = HotelSearch ''LAX'' 4
   \<and> hotelRequired (memory (fst (handleSubmit [] [exHotel ''H1'' 4 120]
         (initialState startMemory ''hotel to LAX'')))) = Some True
   \<and> trim (input ((initialState (startMemory\<lparr>lastQuery :=
          Some \<lparr>q_from = None, q_to = Some [], q_date = None\<rparr>\<rparr>) ''hotel'')\<lparr>flights :=
            [exFlight ''AA1'' ''first'' 900 False]\<rparr>)) \<noteq> []
   \<and> mentionsHotel (trim (input ((initialState (startMemory\<lparr>lastQuery :=
          Some \<lparr>q_from = None, q_to = Some [], q_date = None\<rparr>\<rparr>) ''hotel'')\<lparr>flights :=
            [exFlight ''AA1'' ''first'' 900 False]\<rparr>)))
   \<and> extractTo (trim (input ((initialState (startMemory\<lparr>lastQuery :=
          Some \<lparr>q_from = None, q_to = Some [], q_date = None\<rparr>\<rparr>) ''hotel'')\<lparr>flights :=
            [exFlight ''AA1'' ''first'' 900 False]\<rparr>))) = None
   \<and> lqTo (memory ((initialState (startMemory\<lparr>lastQuery :=
          Some \<lparr>q_from = None, q_to = Some [], q_date = None\<rparr>\<rparr>) ''hotel'')\<lparr>flights :=
            [exFlight ''AA1'' ''first'' 900 False]\<rparr>)) = Some []
   \<and> (\<forall>c n. HotelSearch c n \<notin> set (snd (handleSubmit [] [exHotel ''H1'' 4 120]
          ((initialState (startMemory\<lparr>lastQuery :=
          Some \<lparr>q_from = None, q_to = Some [], q_date = None\<rparr>\<rparr>) ''hotel'')\<lparr>flights :=
            [exFlight ''AA1'' ''first'' 900 False]\<rparr>))))"
proof -
  have i: "input (initialState startMemory ''hotel to LAX'') = ''hotel to LAX''"
    "persona (memory (initialState startMemory ''hotel to LAX'')) = Business"
    by (simp_all add: initialState_def startMemory_def)
  have t: "trim ''hotel to LAX'' = ''hotel to LAX''"
    by code_simp
  have ne: "trim (input (initialState startMemory ''hotel to LAX'')) \<noteq> []"
    by (simp add: i t)
  have m: "mentionsHotel (trim (input (initialState startMemory ''hotel to LAX'')))"
    unfolding i t by code_simp
  have e: "extractTo (trim (input (initialState startMemory ''hotel to LAX''))) = Some ''LAX''"
    unfolding i t by code_simp
  from m have required: "mentionsHotel (trim (input (initialState startMemory ''hotel to LAX'')))
        \<or> (flights (fst (handleSubmit [] [exHotel ''H1'' 4 120]
               (initialState startMemory ''hotel to LAX'')))
              = flights (initialState startMemory ''hotel to LAX'')
            \<and> (\<exists>f fs. flights (initialState startMemory ''hotel to LAX'') = f # fs \<and> f_overnight f))"
    by blast
  from hotel_city_priority [OF ne required, of "''LAX''"] e
  have one: "last (snd (handleSubmit [] [exHotel ''H1'' 4 120] (initialState startMemory ''hotel to LAX'')))
       = HotelSearch ''LAX'' 4
     \<and> hotelRequired (memory (fst (handleSubmit [] [exHotel ''H1'' 4 120]
         (initialState startMemory ''hotel to LAX'')))) = Some True"
    by (simp add: i minStars_def)
  have i2: "input ((initialState (startMemory\<lparr>lastQuery :=
          Some \<lparr>q_from = None, q_to = Some [], q_date = None\<rparr>\<rparr>) ''hotel'')\<lparr>flights :=
            [exFlight ''AA1'' ''first'' 900 False]\<rparr>) = ''hotel''"
    by (simp add: initialState_def)
  have t2: "trim ''hotel'' = ''hotel''"
    by code_simp
  have ne2: "trim (input ((initialState (startMemory\<lparr>lastQuery :=
          Some \<lparr>q_from = None, q_to = Some [], q_date = None\<rparr>\<rparr>) ''hotel'')\<lparr>flights :=
            [exFlight ''AA1'' ''first'' 900 False]\<rparr>)) \<noteq> []"
    by (simp add: i2 t2)
  have m2: "mentionsHotel (trim (input ((initialState (startMemory\<lparr>lastQuery :=
          Some \<lparr>q_from = None, q_to = Some [], q_date = None\<rparr>\<rparr>) ''hotel'')\<lparr>flights :=
            [exFlight ''AA1'' ''first'' 900 False]\<rparr>)))"
    unfolding i2 t2 by code_simp
  have e2: "extractTo (trim (input ((initialState (startMemory\<lparr>lastQuery :=
          Some \<lparr>q_from = None, q_to = Some [], q_date = None\<rparr>\<rparr>) ''hotel'')\<lparr>flights :=
            [exFlight ''AA1'' ''first'' 900 False]\<rparr>))) = None"
    unfolding i2 t2 by code_simp
  have l2: "lqTo (memory ((initialState (startMemory\<lparr>lastQuery :=
          Some \<lparr>q_from = None, q_to = Some [], q_date = None\<rparr>\<rparr>) ''hotel'')\<lparr>flights :=
            [exFlight ''AA1'' ''first'' 900 False]\<rparr>)) = Some []"
    by (simp add: initialState_def lqTo_def)
  from m2 have required2: "mentionsHotel (trim (input ((initialState (startMemory\<lparr>lastQuery :=
          Some \<lparr>q_from = None, q_to = Some [], q_date = None\<rparr>\<rparr>) ''hotel'')\<lparr>flights :=
            [exFlight ''AA1'' ''first'' 900 False]\<rparr>)))
        \<or> (flights (fst (handleSubmit [] [exHotel ''H1'' 4 120]
               ((initialState (startMemory\<lparr>lastQuery :=
          Some \<lparr>q_from = None, q_to = Some [], q_date = None\<rparr>\<rparr>) ''hotel'')\<lparr>flights :=
            [exFlight ''AA1'' ''first'' 900 False]\<rparr>)))
              = flights ((initialState (startMemory\<lparr>lastQuery :=
          Some \<lparr>q_from = None, q_to = Some [], q_date = None\<rparr>\<rparr>) ''hotel'')\<lparr>flights :=
            [exFlight ''AA1'' ''first'' 900 False]\<rparr>)
            \<and> (\<exists>f fs. flights ((initialState (startMemory\<lparr>lastQuery :=
          Some \<lparr>q_from = None, q_to = Some [], q_date = None\<rparr>\<rparr>) ''hotel'')\<lparr>flights :=
            [exFlight ''AA1'' ''first'' 900 False]\<rparr>) = f # fs \<and> f_overnight f))"
    by blast
  from hotel_city_priority [OF ne2 required2, of "[]"] e2 l2
  have two: "\<forall>c n. HotelSearch c n \<notin> set (snd (handleSubmit [] [exHotel ''H1'' 4 120]
          ((initialState (startMemory\<lparr>lastQuery :=
          Some \<lparr>q_from = None, q_to = Some [], q_date = None\<rparr>\<rparr>) ''hotel'')\<lparr>flights :=
            [exFlight ''AA1'' ''first'' 900 False]\<rparr>)))"
    by blast
  from ne m e one ne2 m2 e2 l2 two show ?thesis
    by blast
qed

text \<open>
  As the claim is written it fails: with NYC to LAX remembered, no flight held and none
  found, the utterance \<open>need a hotel\<close> names no destination and there is no top-ranked
  flight, and yet the turn searches hotels in LAX and says so.
\<close>

theorem remembered_destination_used:
  "extractTo ''need a hotel'' = None
   \<and> flights (initialState knownMemory ''need a hotel'') = []
   \<and> flights (fst (handleSubmit [] [exHotel ''H1'' 4 120] (initialState knownMemory ''need a hotel''))) = []
   \<and> snd (handleSubmit [] [exHotel ''H1'' 4 120] (initialState knownMemory ''need a hotel''))
       = [FlightSearch [(''from'', ''NYC''), (''to'', ''LAX'')], HotelSearch ''LAX'' 4]
   \<and> messages (fst (handleSubmit [] [exHotel ''H1'' 4 120] (initialState knownMemory ''need a hotel'')))
       = [(User, ''need a hotel''), (Agent, ''I found flight options ranked by your persona.''),
          (Agent, ''Hotel is required in LAX. Suggested options listed.'')]"
proof -
  have t: "trim ''need a hotel'' = ''need a hotel''"
    by code_simp
  have e: "extractFrom ''need a hotel'' = None" "extractTo ''need a hotel'' = None"
    "extractDate ''need a hotel'' = None"
    by code_simp+
  have n: "needsHotel ''need a hotel'' []"
    by code_simp
  have p: "queryParams \<lparr>q_from = Some ''NYC'', q_to = Some ''LAX'', q_date = None\<rparr>
      = [(''from'', ''NYC''), (''to'', ''LAX'')]"
    by (simp add: queryParams_def)
  have i: "input (initialState knownMemory ''need a hotel'') = ''need a hotel''"
    "flights (initialState knownMemory ''need a hotel'') = []"
    "messages (initialState knownMemory ''need a hotel'') = []"
    "memory (initialState knownMemory ''need a hotel'') = knownMemory"
    by (simp_all add: initialState_def)
  have ne: "trim (input (initialState knownMemory ''need a hotel'')) \<noteq> []"
    by (simp add: i t)
  have m: "mergeQuery knownMemory None None None = knownMemory"
    by (simp add: mergeQuery_def coalesce_def knownMemory_def startMemory_def
        lqFrom_def lqTo_def lqDate_def)
  have k: "persona knownMemory = Business"
    "lastQuery knownMemory = Some \<lparr>q_from = Some ''NYC'', q_to = Some ''LAX'', q_date = None\<rparr>"
    by (simp_all add: knownMemory_def startMemory_def)
  have a: "arrivalCity knownMemory [] = ''LAX''"
    by (simp add: arrivalCity_def lqTo_def k coalesce_def)
  have s: "searchFlights [] Business \<lparr>q_from = Some ''NYC'', q_to = Some ''LAX'', q_date = None\<rparr> = []"
    by (simp add: searchFlights_def rankFlights_def GET_flights_def p)
  show ?thesis
    by (simp add: handleSubmit_effects [OF ne] handleSubmit_flights [OF ne]
        handleSubmit_messages [OF ne] i t e n p m k a s minStars_def)
qed

end
